theory Spec2Isabelle
  imports Complex_Main "HOL-Library.AList"
begin

section \<open>Values, objects and errors of the storage layer\<close>

text \<open>
  The checker and the writer of nexgen work on an HDF5 file through h5py. The file is
  modelled as a tree: a dataset holds a value and attributes, a group holds named members
  and attributes. Every name of a group leads to an object of its own (no hard link gives
  one object two names). Members and attributes are association lists read through
  \<open>map_of\<close>, so that the loops of the source over attribute keys and items are folds.

  A value is a Python value: a \<open>str\<close>, a byte string (\<open>bytes\<close>, \<open>np.string_\<close>), a
  number, or a one-dimensional array of numbers. Numbers are reals: the source only
  compares them with \<open>0\<close> and \<open>-1\<close>. An attribute holds the value it was given. A
  dataset holds the value that a read hands back: h5py hands the content of every string
  dataset back as bytes, so a dataset created from a \<open>str\<close> holds the bytes of it
  (\<open>as_read\<close>), and no dataset of a file holds a \<open>str\<close>.
\<close>

datatype pyval = PStr string | PBytes string | PNum real | PArr "real list"

datatype error = KeyError | TypeError | ValueError | IndexError

type_synonym attrs = "(string \<times> pyval) list"

datatype node = Dataset pyval attrs | Group "(string \<times> node) list" attrs

text \<open>A call of \<open>logger.info\<close>: a fixed text, or an f-string with one value in it.\<close>

datatype logmsg = Msg string | MsgVal string pyval

type_synonym path = "string list"

fun attrs_of :: "node \<Rightarrow> attrs" where
  "attrs_of (Dataset v a) = a"
| "attrs_of (Group m a) = a"

fun with_attrs :: "node \<Rightarrow> attrs \<Rightarrow> node" where
  "with_attrs (Dataset v _) a = Dataset v a"
| "with_attrs (Group m _) a = Group m a"

text \<open>
  \<open>locate n p\<close> resolves the slash-separated name \<open>p\<close> (a list of components) from
  the object \<open>n\<close>; a missing component, or a component below a dataset, is a
  \<open>KeyError\<close>. \<open>replace n p x\<close> is the tree with the object at \<open>p\<close> replaced.
\<close>

fun locate :: "node \<Rightarrow> path \<Rightarrow> error + node" where
  "locate n [] = Inr n"
| "locate (Group m a) (k # ks) =
     (case map_of m k of None \<Rightarrow> Inl KeyError | Some c \<Rightarrow> locate c ks)"
| "locate (Dataset v a) (k # ks) = Inl KeyError"

fun replace :: "node \<Rightarrow> path \<Rightarrow> node \<Rightarrow> node" where
  "replace n [] x = x"
| "replace (Group m a) (k # ks) x =
     (case map_of m k of None \<Rightarrow> Group m a
      | Some c \<Rightarrow> Group (AList.update k (replace c ks x) m) a)"
| "replace (Dataset v a) (k # ks) x = Dataset v a"

text \<open>
  \<open>h[name]\<close> on a handle: indexing a dataset with a name is a \<open>ValueError\<close> in h5py
  (field names are for compound types only), indexing a group resolves the name.
\<close>

definition getitem :: "node \<Rightarrow> path \<Rightarrow> error + node" where
  "getitem h p = (case h of Dataset v a \<Rightarrow> Inl ValueError | Group m a \<Rightarrow> locate h p)"

text \<open>\<open>h[()]\<close>: the value of a dataset; a group cannot be indexed by a tuple.\<close>

definition read_value :: "node \<Rightarrow> error + pyval" where
  "read_value h = (case h of Dataset v a \<Rightarrow> Inr v | Group m a \<Rightarrow> Inl TypeError)"

text \<open>What a dataset created with \<open>data=v\<close> reads back as: a \<open>str\<close> as bytes.\<close>

definition as_read :: "pyval \<Rightarrow> pyval" where
  "as_read v = (case v of PStr s \<Rightarrow> PBytes s | PBytes s \<Rightarrow> PBytes s
                | PNum x \<Rightarrow> PNum x | PArr xs \<Rightarrow> PArr xs)"

text \<open>\<open>h.attrs[k]\<close>: a missing attribute is a \<open>KeyError\<close>.\<close>

definition read_attr :: "node \<Rightarrow> string \<Rightarrow> error + pyval" where
  "read_attr h k = (case map_of (attrs_of h) k of None \<Rightarrow> Inl KeyError | Some v \<Rightarrow> Inr v)"

definition write_attr :: "node \<Rightarrow> string \<Rightarrow> pyval \<Rightarrow> node" where
  "write_attr h k v = with_attrs h (AList.update k v (attrs_of h))"

text \<open>
  \<open>del h[p]\<close> unlinks the object named by the path \<open>p\<close>, and
  \<open>h.create_dataset(name, data=v)\<close> or \<open>h.create_group(name)\<close> links a new
  object into the group \<open>h\<close>. Creating under a name that exists is a \<open>ValueError\<close>.
\<close>

fun del_in :: "node \<Rightarrow> path \<Rightarrow> error + node" where
  "del_in (Group m a) [k] =
     (case map_of m k of None \<Rightarrow> Inl KeyError
      | Some c \<Rightarrow> Inr (Group (AList.delete k m) a))"
| "del_in (Group m a) (k # ks) =
     (case map_of m k of None \<Rightarrow> Inl KeyError
      | Some c \<Rightarrow>
          (case del_in c ks of Inl e \<Rightarrow> Inl e
           | Inr c' \<Rightarrow> Inr (Group (AList.update k c' m) a)))"
| "del_in n p = Inl KeyError"

definition delitem :: "node \<Rightarrow> path \<Rightarrow> error + node" where
  "delitem h p = (case h of Dataset v a \<Rightarrow> Inl TypeError | Group m a \<Rightarrow> del_in h p)"

definition create_object :: "node \<Rightarrow> string \<Rightarrow> node \<Rightarrow> error + node" where
  "create_object h k x =
     (case h of
        Dataset v a \<Rightarrow> Inl TypeError
      | Group m a \<Rightarrow>
          (case map_of m k of None \<Rightarrow> Inr (Group (AList.update k x m) a)
           | Some c \<Rightarrow> Inl ValueError))"

section \<open>Python comparisons of the checker\<close>

text \<open>
  \<open>x != lit\<close> for a \<open>str\<close> or \<open>bytes\<close> literal: values of different Python
  types are unequal (a byte string never equals a \<open>str\<close>), and an array compared with
  a string gives the scalar \<open>True\<close>.
\<close>

definition py_ne :: "pyval \<Rightarrow> pyval \<Rightarrow> bool" where
  "py_ne v lit = (v \<noteq> lit)"

text \<open>
  \<open>if x != 0:\<close> on the value of a dataset. For an array the comparison is elementwise
  and the \<open>if\<close> takes the truth value of the result: that of its only element, false
  for an empty array (with a deprecation warning, in the numpy releases that still have
  \<open>np.string_\<close>), and a \<open>ValueError\<close> for more than one element. A string is
  never equal to \<open>0\<close>.
\<close>

definition ne_zero :: "pyval \<Rightarrow> error + bool" where
  "ne_zero v =
     (case v of
        PNum x \<Rightarrow> Inr (x \<noteq> 0)
      | PArr xs \<Rightarrow>
          (case xs of [] \<Rightarrow> Inr False
           | x # rest \<Rightarrow> (if rest = [] then Inr (x \<noteq> 0) else Inl ValueError))
      | PStr s \<Rightarrow> Inr True
      | PBytes s \<Rightarrow> Inr True)"

text \<open>
  \<open>np.any(x != [0, 0, -1])\<close> on the value of an attribute: elementwise on arrays of
  the same length, broadcast for a scalar or an array of one element, and the scalar
  \<open>True\<close> when the shapes do not fit or the value is a string.
\<close>

definition np_any_ne :: "pyval \<Rightarrow> real list \<Rightarrow> bool" where
  "np_any_ne v ys =
     (case v of
        PNum x \<Rightarrow> list_ex (\<lambda>y. x \<noteq> y) ys
      | PArr xs \<Rightarrow>
          (if length xs = length ys then list_ex (\<lambda>(x, y). x \<noteq> y) (zip xs ys)
           else if length xs = 1 then list_ex (\<lambda>y. hd xs \<noteq> y) ys
           else True)
      | PStr s \<Rightarrow> True
      | PBytes s \<Rightarrow> True)"

section \<open>State, exceptions and logging\<close>

text \<open>
  A function of the checker runs on the object it was handed and on the log; it changes
  the object in place, so the state survives an exception. Handles to objects below the
  one handed in are paths from it.
\<close>

type_synonym st = "node \<times> logmsg list"
type_synonym 'a act = "st \<Rightarrow> (error + 'a) \<times> st"

definition ret :: "'a \<Rightarrow> 'a act" where
  "ret x s = (Inr x, s)"

definition bnd :: "'a act \<Rightarrow> ('a \<Rightarrow> 'b act) \<Rightarrow> 'b act" where
  "bnd m f s = (case m s of (Inl e, s') \<Rightarrow> (Inl e, s') | (Inr x, s') \<Rightarrow> f x s')"

text \<open>An expression that may raise, evaluated in the current state.\<close>

definition eval :: "error + 'a \<Rightarrow> 'a act" where
  "eval r s = (r, s)"

definition thn :: "unit act \<Rightarrow> 'b act \<Rightarrow> 'b act" where
  "thn m f = bnd m (\<lambda>_. f)"

text \<open>\<open>try: m except KeyError: h\<close>: the handler runs on the state the body left.\<close>

definition try_KeyError :: "'a act \<Rightarrow> 'a act \<Rightarrow> 'a act" where
  "try_KeyError m h s =
     (case m s of (Inl e, s') \<Rightarrow> (if e = KeyError then h s' else (Inl e, s'))
      | (Inr x, s') \<Rightarrow> (Inr x, s'))"

definition when_true :: "bool \<Rightarrow> unit act \<Rightarrow> unit act" where
  "when_true c m = (if c then m else ret ())"

definition info :: "logmsg \<Rightarrow> unit act" where
  "info msg s = (Inr (), (fst s, snd s @ [msg]))"

text \<open>Reading through a handle \<open>hp\<close>, and changing the object behind it.\<close>

definition reading :: "path \<Rightarrow> (node \<Rightarrow> error + 'a) \<Rightarrow> 'a act" where
  "reading hp f s =
     (case locate (fst s) hp of Inl e \<Rightarrow> (Inl e, s)
      | Inr h \<Rightarrow> (f h, s))"

definition changing :: "path \<Rightarrow> (node \<Rightarrow> error + node) \<Rightarrow> unit act" where
  "changing hp f s =
     (case locate (fst s) hp of Inl e \<Rightarrow> (Inl e, s)
      | Inr h \<Rightarrow>
          (case f h of Inl e \<Rightarrow> (Inl e, s)
           | Inr h' \<Rightarrow> (Inr (), (replace (fst s) hp h', snd s))))"

text \<open>\<open>hp[p]\<close> gives the handle \<open>hp @ p\<close> when the object is there.\<close>

definition item :: "path \<Rightarrow> path \<Rightarrow> path act" where
  "item hp p = bnd (reading hp (\<lambda>h. getitem h p)) (\<lambda>_. ret (hp @ p))"

definition value_of :: "path \<Rightarrow> pyval act" where
  "value_of hp = reading hp read_value"

definition attr_get :: "path \<Rightarrow> string \<Rightarrow> pyval act" where
  "attr_get hp k = reading hp (\<lambda>h. read_attr h k)"

definition attr_set :: "path \<Rightarrow> string \<Rightarrow> pyval \<Rightarrow> unit act" where
  "attr_set hp k v = changing hp (\<lambda>h. Inr (write_attr h k v))"

definition del_item :: "path \<Rightarrow> path \<Rightarrow> unit act" where
  "del_item hp p = changing hp (\<lambda>h. delitem h p)"

definition create_dataset :: "path \<Rightarrow> string \<Rightarrow> pyval \<Rightarrow> path act" where
  "create_dataset hp k v =
     thn (changing hp (\<lambda>h. create_object h k (Dataset (as_read v) []))) (ret (hp @ [k]))"

section \<open>CheckTristanNexus: the application definition\<close>

text \<open>
  The value read from \<open>entry/definition\<close> is compared with the \<open>str\<close> \<open>"NXmx"\<close>. A
  string dataset reads back as bytes, which no \<open>str\<close> equals: also the dataset
  that the function itself creates, from the \<open>str\<close> \<open>"NXmx"\<close>.
\<close>

definition check_definition :: "unit act" where
  "check_definition =
     bnd (item [] [''entry'', ''definition'']) (\<lambda>d.
     bnd (value_of d) (\<lambda>definition.
     thn (info (MsgVal ''Application definition: '' definition))
    (thn (when_true (py_ne definition (PStr ''NXmx''))
           (thn (del_item [] [''entry'', ''definition''])
           (bnd (item [] [''entry'']) (\<lambda>e.
            bnd (create_dataset e ''definition'' (PStr ''NXmx'')) (\<lambda>_.
            info (Msg ''Fixing definition to NXmx''))))))
         (info (Msg '''')))))"

section \<open>CheckTristanNexus: the detector transformations\<close>

text \<open>
  The two loops of the value correction: \<open>for k in ds.attrs.keys(): d[k] = ds.attrs[k]\<close>
  fills the dictionary \<open>d\<close>, and \<open>for k, v in d.items(): tt.attrs[k] = v\<close> writes it
  to the new dataset.
\<close>

fun copy_attrs :: "attrs \<Rightarrow> string list \<Rightarrow> attrs \<Rightarrow> attrs" where
  "copy_attrs a [] d = d"
| "copy_attrs a (k # ks) d =
     copy_attrs a ks (case map_of a k of None \<Rightarrow> d | Some v \<Rightarrow> AList.update k v d)"

fun restore_attrs :: "path \<Rightarrow> attrs \<Rightarrow> unit act" where
  "restore_attrs tt [] = ret ()"
| "restore_attrs tt ((k, v) # d) = thn (attr_set tt k v) (restore_attrs tt d)"

text \<open>Lines 34 to 40: the group \<open>two_theta\<close>, or \<open>twotheta\<close> in older files.\<close>

definition find_two_theta :: "(string \<times> path) act" where
  "find_two_theta =
     try_KeyError
       (bnd (item [] [''two_theta'']) (\<lambda>two_theta. ret (''two_theta'', two_theta)))
       (bnd (item [] [''twotheta'']) (\<lambda>two_theta. ret (''twotheta'', two_theta)))"

text \<open>Lines 41 to 50: a value other than 0 is replaced by a new dataset \<open>[0.0]\<close>.\<close>

definition fix_two_theta_value :: "string \<Rightarrow> path \<Rightarrow> unit act" where
  "fix_two_theta_value ds_name two_theta =
     bnd (bnd (item two_theta [ds_name]) value_of) (\<lambda>v.
     bnd (eval (ne_zero v)) (\<lambda>c.
     when_true c
       (thn (info (Msg ''Correcting the value of two_theta arm ...''))
       (bnd (item two_theta [ds_name]) (\<lambda>ds.
        bnd (reading ds (\<lambda>x. Inr (copy_attrs (attrs_of x) (map fst (attrs_of x)) []))) (\<lambda>d.
        thn (del_item two_theta [ds_name])
       (bnd (create_dataset two_theta ds_name (PArr [0])) (\<lambda>tt.
        restore_attrs tt d))))))))"

text \<open>Lines 54 to 56.\<close>

definition fix_det_z_vector :: "path \<Rightarrow> unit act" where
  "fix_det_z_vector det_z =
     bnd (attr_get det_z ''vector'') (\<lambda>vec.
     when_true (np_any_ne vec [0, 0, -1])
       (thn (info (Msg ''Overwriting det_z vector ...''))
            (attr_set det_z ''vector'' (PArr [0, 0, -1]))))"

text \<open>Lines 59 to 61.\<close>

definition fix_two_theta_depends_on :: "string \<Rightarrow> path \<Rightarrow> unit act" where
  "fix_two_theta_depends_on ds_name two_theta =
     bnd (bnd (item two_theta [ds_name]) (\<lambda>ds. attr_get ds ''depends_on'')) (\<lambda>dep.
     when_true (py_ne dep (PBytes ''.''))
       (thn (info (Msg ''Setting two_theta as base ...''))
       (bnd (item two_theta [ds_name]) (\<lambda>ds. attr_set ds ''depends_on'' (PBytes ''.'')))))"

text \<open>
  Lines 62 to 69. The statement of line 67 is the comparison
  \<open>det_z.attrs["depends_on"] == np.string_(...)\<close>: it reads the attribute, compares and
  drops the result; nothing is assigned.
\<close>

definition fix_det_z_depends_on :: "path \<Rightarrow> unit act" where
  "fix_det_z_depends_on det_z =
     bnd (attr_get det_z ''depends_on'') (\<lambda>dep.
     when_true
       (py_ne dep (PBytes ''/entry/instrument/detector/transformations/two_theta/two_theta''))
       (thn (info (Msg ''Fixing typo in det_z dependency ...''))
       (bnd (attr_get det_z ''depends_on'') (\<lambda>dep'.
        bnd (ret (dep' =
               PBytes ''/entry/instrument/detector/transformations/two_theta/two_theta''))
            (\<lambda>_. ret ())))))"

definition check_detector_transformations :: "unit act" where
  "check_detector_transformations =
     thn (info (Msg
       ''On I19-2 the Tristan detector does not sit on two_theta arm, which must be set to 0.''))
    (bnd find_two_theta (\<lambda>(ds_name, two_theta).
     thn (fix_two_theta_value ds_name two_theta)
    (thn (info (Msg ''Additionally, the detector_z vector should be [0,0,-1]''))
    (bnd (item [] [''detector_z'', ''det_z'']) (\<lambda>det_z.
     thn (fix_det_z_vector det_z)
    (thn (info (Msg ''Checking dependency tree of detector for typos ...''))
    (thn (fix_two_theta_depends_on ds_name two_theta)
         (fix_det_z_depends_on det_z))))))))"

section \<open>CheckTristanNexus: the sample\<close>

definition check_sample_depends_on :: "unit act" where
  "check_sample_depends_on =
     try_KeyError
       (bnd (bnd (item [] [''depends_on'']) value_of) (\<lambda>dep.
        when_true (py_ne dep (PBytes ''/entry/sample/transformations/phi''))
          (thn (info (Msg ''Fixing sample depends_on field ...''))
          (thn (del_item [] [''depends_on''])
          (bnd (create_dataset [] ''depends_on'' (PBytes ''/entry/sample/transformations/phi''))
               (\<lambda>_. ret ()))))))
       (thn (info (Msg ''Sample depends_on field did not exist, creating now ...''))
       (bnd (create_dataset [] ''depends_on'' (PBytes ''/entry/sample/transformations/phi''))
            (\<lambda>_. ret ())))"

text \<open>
  One statement of \<open>check_I19_dependency_tree\<close>:
  \<open>if nxtransf[ax].attrs["depends_on"] != target: nxtransf[ax].attrs["depends_on"] = target\<close>.
\<close>

definition fix_axis_depends_on :: "string \<Rightarrow> string \<Rightarrow> unit act" where
  "fix_axis_depends_on ax target =
     bnd (bnd (item [] [ax]) (\<lambda>h. attr_get h ''depends_on'')) (\<lambda>dep.
     when_true (py_ne dep (PBytes target))
       (bnd (item [] [ax]) (\<lambda>h. attr_set h ''depends_on'' (PBytes target))))"

definition check_I19_dependency_tree :: "unit act" where
  "check_I19_dependency_tree =
     thn (info (Msg ''The dependency tree on I19-2 should follow this order:''))
    (thn (info (Msg ''x - y - z - phi - kappa - omega''))
    (thn (fix_axis_depends_on ''omega'' ''.'')
    (thn (fix_axis_depends_on ''kappa'' ''/entry/sample/transformations/omega'')
    (thn (fix_axis_depends_on ''phi'' ''/entry/sample/transformations/kappa'')
    (thn (fix_axis_depends_on ''sam_x'' ''/entry/sample/transformations/sam_y'')
    (thn (fix_axis_depends_on ''sam_y'' ''/entry/sample/transformations/sam_z'')
         (fix_axis_depends_on ''sam_z'' ''/entry/sample/transformations/phi'')))))))"

section \<open>CheckTristanNexus: the run over one file\<close>

text \<open>
  \<open>f(nxsfile[p])\<close>: the function runs on the object at \<open>p\<close>, which it changes in
  place; what it changed before an exception stays changed.
\<close>

definition call_on :: "path \<Rightarrow> unit act \<Rightarrow> unit act" where
  "call_on p f s =
     (case getitem (fst s) p of Inl e \<Rightarrow> (Inl e, s)
      | Inr g \<Rightarrow>
          (case f (g, snd s) of (r, (g', l')) \<Rightarrow> (r, (replace (fst s) p g', l'))))"

text \<open>
  The log file is opened with \<open>filemode="w"\<close>: a run starts from an empty log. The state
  is the root group of the file opened in mode \<open>r+\<close>.
\<close>

definition run_checks :: "string \<Rightarrow> unit act" where
  "run_checks tristan_nexus_file =
     thn (info (Msg (''Running checks on '' @ tristan_nexus_file @ '' ...'')))
    (thn (info (Msg ''Check application definition''))
    (thn check_definition
    (thn (info (Msg ''----------''))
    (thn (info (Msg (''Check that detector_z and two_theta fields are correctly set '' @
                     ''to I19-2 configuration for Tristan.'')))
    (thn (try_KeyError
            (call_on [''entry'', ''instrument'', ''detector'', ''transformations'']
               check_detector_transformations)
            (call_on [''entry'', ''instrument'', ''transformations'']
               check_detector_transformations))
    (thn (info (Msg ''----------''))
    (thn (info (Msg ''Check sample depends on''))
    (thn (call_on [''entry'', ''sample''] check_sample_depends_on)
    (thn (info (Msg ''----------''))
    (thn (info (Msg ''Check goniometer dependency tree''))
    (thn (call_on [''entry'', ''sample'', ''transformations''] check_I19_dependency_tree)
         (info (Msg ''EOF'')))))))))))))"

section \<open>Files used as examples\<close>

text \<open>
  An entry whose definition is \<open>NXclassified\<close>; and one whose definition is \<open>NXmx\<close>
  and carries an attribute.
\<close>

definition file_NXclassified :: node where
  "file_NXclassified =
     Group [(''entry'', Group [(''definition'', Dataset (PBytes ''NXclassified'') [])] [])] []"

definition file_NXmx :: node where
  "file_NXmx =
     Group [(''entry'',
             Group [(''definition'', Dataset (PBytes ''NXmx'') [(''note'', PStr ''kept'')])]
               [])]
       []"

text \<open>
  A sample group without \<open>depends_on\<close>, one whose \<open>depends_on\<close> names another axis
  and carries an attribute, and one whose \<open>depends_on\<close> is the right one.
\<close>

definition sample_without_depends_on :: node where
  "sample_without_depends_on = Group [(''name'', Dataset (PBytes ''crystal'') [])] []"

definition sample_wrong_depends_on :: node where
  "sample_wrong_depends_on =
     Group [(''depends_on'',
             Dataset (PBytes ''/entry/sample/transformations/omega'') [(''note'', PStr ''old'')])]
           []"

definition sample_right_depends_on :: node where
  "sample_right_depends_on =
     Group [(''depends_on'',
             Dataset (PBytes ''/entry/sample/transformations/phi'') [(''note'', PStr ''old'')])]
           []"

section \<open>NexusWriter: a new file\<close>

text \<open>
  \<open>write_NXmx_nexus\<close> takes the goniometer as a scope with the lists \<open>axes\<close>,
  \<open>starts\<close>, \<open>ends\<close> and \<open>increments\<close>; the other scopes (detector, module, source,
  beam, attenuator) are passed on as they are, so their type is a parameter.
\<close>

record goniometer =
  axes :: "string list"
  starts :: "real list"
  ends :: "real list"
  increments :: "real list"

text \<open>The keyword argument of \<open>calculate_scan_range\<close>.\<close>

datatype scan_by = AxisIncrement real | NImages int

text \<open>
  The functions that the writer imports from other modules of the package are
  parameters: \<open>find_scan_axis\<close> and \<open>calculate_scan_range\<close> of the package,
  \<open>find_number_of_images\<close> of \<open>data_tools\<close>, and \<open>data_shape0\<close> for opening a data file
  and reading \<open>f["data"].shape[0]\<close>.
\<close>

record ('f, 'r) scan_tools =
  find_scan_axis :: "string list \<Rightarrow> real list \<Rightarrow> real list \<Rightarrow> error + string"
  calculate_scan_range :: "real \<Rightarrow> real \<Rightarrow> scan_by \<Rightarrow> error + 'r"
  find_number_of_images :: "'f list \<Rightarrow> error + int"
  data_shape0 :: "'f \<Rightarrow> error + int"

text \<open>
  The six writers of \<open>NXclassWriters\<close> are parameters too, each with the arguments that
  \<open>call_writers\<close> hands it. Where \<open>call_writers\<close> hands over fields of a scope
  (\<open>source.beamline_name\<close>, \<open>detector.image_size\<close>, \<open>detector.pixel_size\<close>,
  \<open>detector.beam_center\<close>) the parameter takes the scope.
\<close>

record ('f, 'r, 's) nx_writers =
  write_NXdata ::
    "'f list \<Rightarrow> goniometer \<Rightarrow> string \<Rightarrow> string \<Rightarrow> 'r \<Rightarrow> string \<Rightarrow> string option \<Rightarrow> unit act"
  write_NXinstrument :: "'s \<Rightarrow> 's \<Rightarrow> 's \<Rightarrow> unit act"
  write_NXdetector :: "'s \<Rightarrow> string \<Rightarrow> string \<times> int \<Rightarrow> unit act"
  write_NXdetector_module :: "'s \<Rightarrow> string \<Rightarrow> 's \<Rightarrow> unit act"
  write_NXsource :: "'s \<Rightarrow> unit act"
  write_NXsample :: "goniometer \<Rightarrow> string \<Rightarrow> string \<Rightarrow> string \<Rightarrow> 'r \<Rightarrow> unit act"

text \<open>Sequencing of expressions that may raise; \<open>xs.index(x)\<close> and \<open>xs[i]\<close> on lists.\<close>

definition sbind :: "error + 'a \<Rightarrow> ('a \<Rightarrow> error + 'b) \<Rightarrow> error + 'b" where
  "sbind r f = (case r of Inl e \<Rightarrow> Inl e | Inr x \<Rightarrow> f x)"

fun index_of :: "'a list \<Rightarrow> 'a \<Rightarrow> error + nat" where
  "index_of [] x = Inl ValueError"
| "index_of (y # ys) x =
     (if y = x then Inr 0
      else (case index_of ys x of Inl e \<Rightarrow> Inl e | Inr i \<Rightarrow> Inr (Suc i)))"

definition nth_py :: "'a list \<Rightarrow> nat \<Rightarrow> error + 'a" where
  "nth_py xs i = (if i < length xs then Inr (xs ! i) else Inl IndexError)"

definition create_group :: "path \<Rightarrow> string \<Rightarrow> path act" where
  "create_group hp k =
     thn (changing hp (\<lambda>h. create_object h k (Group [] []))) (ret (hp @ [k]))"

text \<open>Lines 59 to 64: the number of images, from the data files.\<close>

definition image_count :: "('f, 'r) scan_tools \<Rightarrow> 'f list \<Rightarrow> error + int" where
  "image_count T datafiles =
     (if length datafiles = 1 then data_shape0 T (hd datafiles)
      else find_number_of_images T datafiles)"

text \<open>Lines 71 to 82: the scan range of the scan axis.\<close>

definition scan_range_of ::
    "('f, 'r) scan_tools \<Rightarrow> goniometer \<Rightarrow> string \<Rightarrow> int \<Rightarrow> error + 'r" where
  "scan_range_of T gon osc_axis num_images =
     sbind (index_of (axes gon) osc_axis) (\<lambda>idx.
     sbind (nth_py (increments gon) idx) (\<lambda>inc.
       if inc \<noteq> 0 then
         sbind (nth_py (starts gon) idx) (\<lambda>s.
         sbind (nth_py (ends gon) idx) (\<lambda>e.
         sbind (nth_py (increments gon) idx) (\<lambda>i.
         calculate_scan_range T s e (AxisIncrement i))))
       else
         sbind (nth_py (starts gon) idx) (\<lambda>s.
         sbind (nth_py (ends gon) idx) (\<lambda>e.
         calculate_scan_range T s e (NImages num_images)))))"

definition call_writers ::
    "('f, 'r, 's) nx_writers \<Rightarrow> 'f list \<Rightarrow> string \<Rightarrow> string \<Rightarrow> 'r \<Rightarrow> string \<times> int \<Rightarrow>
     goniometer \<Rightarrow> 's \<Rightarrow> 's \<Rightarrow> 's \<Rightarrow> 's \<Rightarrow> 's \<Rightarrow> string option \<Rightarrow> unit act" where
  "call_writers W datafiles coordinate_frame scan_axis scan_range data_type
       gon detector module_scope source beam attenuator vds =
     thn (write_NXdata W datafiles gon (fst data_type) coordinate_frame scan_range scan_axis vds)
    (thn (write_NXinstrument W beam attenuator source)
    (thn (write_NXdetector W detector coordinate_frame data_type)
    (thn (write_NXdetector_module W module_scope coordinate_frame detector)
    (thn (write_NXsource W source)
         (write_NXsample W gon coordinate_frame (fst data_type) scan_axis scan_range)))))"

text \<open>Lines 84 to 117: the tree, once the scan axis and the scan range are known.\<close>

definition write_tree ::
    "('f, 'r, 's) nx_writers \<Rightarrow> 'f list \<Rightarrow> string \<Rightarrow> string \<Rightarrow> 'r \<Rightarrow> string \<times> int \<Rightarrow>
     goniometer \<Rightarrow> 's \<Rightarrow> 's \<Rightarrow> 's \<Rightarrow> 's \<Rightarrow> 's \<Rightarrow> string option \<Rightarrow>
     string option \<times> string option \<Rightarrow> unit act" where
  "write_tree W datafiles coordinate_frame osc_axis scan_range data_type
       gon detector module_scope source beam attenuator vds timestamps =
     thn (attr_set [] ''default'' (PStr ''entry''))
    (bnd (create_group [] ''entry'') (\<lambda>nxentry.
     thn (attr_set nxentry ''NX_class'' (PBytes ''NXentry''))
    (thn (attr_set nxentry ''default'' (PBytes ''data''))
    (bnd (create_dataset nxentry ''definition'' (PBytes ''NXmx'')) (\<lambda>_.
     thn (call_writers W datafiles coordinate_frame osc_axis scan_range data_type
            gon detector module_scope source beam attenuator vds)
    (thn (case fst timestamps of None \<Rightarrow> ret ()
          | Some t \<Rightarrow> bnd (create_dataset nxentry ''start_time'' (PBytes t)) (\<lambda>_. ret ()))
         (case snd timestamps of None \<Rightarrow> ret ()
          | Some t \<Rightarrow> bnd (create_dataset nxentry ''end_time'' (PBytes t)) (\<lambda>_. ret ()))))))))"

definition write_NXmx_nexus ::
    "('f, 'r) scan_tools \<Rightarrow> ('f, 'r, 's) nx_writers \<Rightarrow> 'f list \<Rightarrow> goniometer \<Rightarrow>
     's \<Rightarrow> 's \<Rightarrow> 's \<Rightarrow> 's \<Rightarrow> 's \<Rightarrow> string option \<times> string option \<Rightarrow> string \<Rightarrow>
     string option \<Rightarrow> unit act" where
  "write_NXmx_nexus T W datafiles gon detector module_scope source beam attenuator timestamps
       coordinate_frame vds =
     bnd (eval (image_count T datafiles)) (\<lambda>num_images.
     bnd (eval (find_scan_axis T (axes gon) (starts gon) (ends gon))) (\<lambda>osc_axis.
     bnd (eval (scan_range_of T gon osc_axis num_images)) (\<lambda>scan_range.
     write_tree W datafiles coordinate_frame osc_axis scan_range (''images'', num_images)
       gon detector module_scope source beam attenuator vds timestamps)))"

section \<open>What the claims speak of\<close>

text \<open>
  The member \<open>ax\<close> of a group carries the attribute \<open>depends_on\<close> with the byte string
  \<open>t\<close>; and: it carries an attribute \<open>depends_on\<close> at all.
\<close>

definition depends_on_is :: "node \<Rightarrow> string \<Rightarrow> string \<Rightarrow> bool" where
  "depends_on_is g ax t =
     (case getitem g [ax] of Inl e \<Rightarrow> False
      | Inr h \<Rightarrow> read_attr h ''depends_on'' = Inr (PBytes t))"

definition has_depends_on :: "node \<Rightarrow> string \<Rightarrow> bool" where
  "has_depends_on g ax =
     (case getitem g [ax] of Inl e \<Rightarrow> False
      | Inr h \<Rightarrow> (case read_attr h ''depends_on'' of Inl e \<Rightarrow> False | Inr v \<Rightarrow> True))"

text \<open>The chain of the goniometer on I19-2: x, y, z, phi, kappa, omega, and omega is the base.\<close>

definition I19_chain :: "node \<Rightarrow> bool" where
  "I19_chain g =
     (depends_on_is g ''sam_x'' ''/entry/sample/transformations/sam_y''
      \<and> depends_on_is g ''sam_y'' ''/entry/sample/transformations/sam_z''
      \<and> depends_on_is g ''sam_z'' ''/entry/sample/transformations/phi''
      \<and> depends_on_is g ''phi'' ''/entry/sample/transformations/kappa''
      \<and> depends_on_is g ''kappa'' ''/entry/sample/transformations/omega''
      \<and> depends_on_is g ''omega'' ''.'')"

text \<open>
  A sample transformations group whose six axes depend on each other in another order;
  two of the attributes are \<open>str\<close>, not bytes.
\<close>

definition transformations_scrambled :: node where
  "transformations_scrambled =
     Group [(''omega'', Dataset (PArr [0, 1, 2])
               [(''depends_on'', PBytes ''/entry/sample/transformations/kappa''),
                (''units'', PBytes ''deg'')]),
            (''kappa'', Dataset (PNum 0) [(''depends_on'', PStr ''.'')]),
            (''phi'', Dataset (PNum 0)
               [(''depends_on'', PBytes ''/entry/sample/transformations/kappa'')]),
            (''sam_x'', Dataset (PNum 0)
               [(''depends_on'', PStr ''/entry/sample/transformations/sam_y'')]),
            (''sam_y'', Dataset (PNum 0)
               [(''depends_on'', PBytes ''/entry/sample/transformations/sam_x'')]),
            (''sam_z'', Dataset (PNum 0)
               [(''vector'', PArr [0, 0, 1]), (''depends_on'', PBytes ''.'')])]
       [(''NX_class'', PBytes ''NXtransformations'')]"

text \<open>
  The value equals 0: it is the number \<open>0\<close>, or the array \<open>[0.0]\<close> that the correction
  writes. An empty array is not 0.
\<close>

definition is_zero :: "pyval \<Rightarrow> bool" where
  "is_zero v =
     (case v of PNum x \<Rightarrow> x = 0 | PArr xs \<Rightarrow> xs = [0]
      | PStr s \<Rightarrow> False | PBytes s \<Rightarrow> False)"

text \<open>
  The name under which \<open>find_two_theta\<close> finds the two-theta group when it returns.
\<close>

definition two_theta_name :: "node \<Rightarrow> string" where
  "two_theta_name g =
     (if getitem g [''two_theta''] = Inl KeyError then ''twotheta'' else ''two_theta'')"

text \<open>
  A detector transformations group with the arm at 5 degrees, the vector of \<open>det_z\<close>
  pointing the other way and two wrong dependencies; and the group after the check.
\<close>

definition detector_arm_at_5 :: node where
  "detector_arm_at_5 =
     Group [(''two_theta'',
             Group [(''two_theta'', Dataset (PNum 5)
                       [(''units'', PBytes ''deg''),
                        (''depends_on'', PBytes ''/entry/instrument/detector/transformations/detector_z/det_z''),
                        (''transformation_type'', PBytes ''rotation''),
                        (''vector'', PArr [0, -1, 0])])]
                   [(''NX_class'', PBytes ''NXpositioner'')]),
            (''detector_z'',
             Group [(''det_z'', Dataset (PNum 250)
                       [(''units'', PBytes ''mm''),
                        (''vector'', PArr [0, 0, 1]),
                        (''depends_on'', PBytes ''/entry/instrument/detector/transformations/two_theta'')])]
                   [(''NX_class'', PBytes ''NXpositioner'')])]
       [(''NX_class'', PBytes ''NXtransformations'')]"

definition detector_arm_checked :: node where
  "detector_arm_checked =
     Group [(''two_theta'',
             Group [(''two_theta'', Dataset (PArr [0])
                       [(''units'', PBytes ''deg''),
                        (''depends_on'', PBytes ''.''),
                        (''transformation_type'', PBytes ''rotation''),
                        (''vector'', PArr [0, -1, 0])])]
                   [(''NX_class'', PBytes ''NXpositioner'')]),
            (''detector_z'',
             Group [(''det_z'', Dataset (PNum 250)
                       [(''units'', PBytes ''mm''),
                        (''vector'', PArr [0, 0, -1]),
                        (''depends_on'', PBytes ''/entry/instrument/detector/transformations/two_theta'')])]
                   [(''NX_class'', PBytes ''NXpositioner'')])]
       [(''NX_class'', PBytes ''NXtransformations'')]"

text \<open>
  The value of the two-theta dataset, under the name \<open>nm\<close>, as a read gives it. The
  links of the detector chain: the two-theta dataset is the base of the chain, and the
  vector of \<open>det_z\<close> is \<open>[0, 0, -1]\<close>. The canonical detector chain: the value of
  two-theta equals 0, and the links are those. And: the group has what the check reads,
  a two-theta dataset whose value can be tested against \<open>0\<close> and which has an
  attribute \<open>depends_on\<close>, and a \<open>det_z\<close> with the attributes \<open>vector\<close> and
  \<open>depends_on\<close>.
\<close>

definition two_theta_value :: "node \<Rightarrow> string \<Rightarrow> error + pyval" where
  "two_theta_value g nm =
     (case getitem g [nm, nm] of Inl e \<Rightarrow> Inl e | Inr d \<Rightarrow> read_value d)"

definition detector_links :: "node \<Rightarrow> string \<Rightarrow> bool" where
  "detector_links g nm =
     ((case getitem g [nm, nm] of
         Inl e \<Rightarrow> False
       | Inr d \<Rightarrow> read_attr d ''depends_on'' = Inr (PBytes ''.''))
      \<and> (case getitem g [''detector_z'', ''det_z''] of
            Inl e \<Rightarrow> False
          | Inr z \<Rightarrow> read_attr z ''vector'' = Inr (PArr [0, 0, -1])))"

definition detector_canonical :: "node \<Rightarrow> string \<Rightarrow> bool" where
  "detector_canonical g nm =
     ((case two_theta_value g nm of Inl e \<Rightarrow> False | Inr v \<Rightarrow> is_zero v)
      \<and> detector_links g nm)"

text \<open>
  A detector transformations group whose links are canonical and whose two-theta
  dataset is empty.
\<close>

definition detector_arm_empty :: node where
  "detector_arm_empty =
     Group [(''two_theta'',
             Group [(''two_theta'', Dataset (PArr [])
                       [(''depends_on'', PBytes ''.''), (''units'', PBytes ''deg'')])]
                   [(''NX_class'', PBytes ''NXpositioner'')]),
            (''detector_z'',
             Group [(''det_z'', Dataset (PNum 250)
                       [(''units'', PBytes ''mm''),
                        (''vector'', PArr [0, 0, -1]),
                        (''depends_on'',
                         PBytes ''/entry/instrument/detector/transformations/two_theta/two_theta'')])]
                   [(''NX_class'', PBytes ''NXpositioner'')])]
       [(''NX_class'', PBytes ''NXtransformations'')]"

definition detector_complete :: "node \<Rightarrow> string \<Rightarrow> bool" where
  "detector_complete g nm =
     ((case getitem g [nm, nm] of
         Inl e \<Rightarrow> False
       | Inr d \<Rightarrow>
           (case read_value d of Inl e \<Rightarrow> False
            | Inr v \<Rightarrow> (case ne_zero v of Inl e \<Rightarrow> False | Inr c \<Rightarrow> True))
           \<and> (case read_attr d ''depends_on'' of Inl e \<Rightarrow> False | Inr x \<Rightarrow> True))
      \<and> (case getitem g [''detector_z'', ''det_z''] of
            Inl e \<Rightarrow> False
          | Inr z \<Rightarrow>
              (case read_attr z ''vector'' of Inl e \<Rightarrow> False | Inr x \<Rightarrow> True)
              \<and> (case read_attr z ''depends_on'' of Inl e \<Rightarrow> False | Inr x \<Rightarrow> True)))"

section \<open>Examples for the writer and for whole files\<close>

text \<open>
  An instance of the imported functions, for the examples: the scan axis is \<open>omega\<close>,
  the scan range is the triple of the arguments it was computed from, a data file is the
  number of images it holds, and several files hold the sum.
\<close>

definition tools_example :: "(nat, real \<times> real \<times> scan_by) scan_tools" where
  "tools_example =
     \<lparr> find_scan_axis = (\<lambda>axs sts ens. Inr ''omega''),
       calculate_scan_range = (\<lambda>s e by. Inr (s, e, by)),
       find_number_of_images = (\<lambda>fs. Inr (int (sum_list fs))),
       data_shape0 = (\<lambda>f. Inr (int f)) \<rparr>"

definition goniometer_example :: "real \<Rightarrow> goniometer" where
  "goniometer_example inc =
     \<lparr> axes = [''omega'', ''kappa'', ''phi'', ''sam_z'', ''sam_y'', ''sam_x''],
       starts = [0, 0, 0, 0, 0, 0],
       ends = [90, 0, 0, 0, 0, 0],
       increments = [inc, 0, 0, 0, 0, 0] \<rparr>"

text \<open>
  Modelled from the spec: the writers of the module \<open>NXclassWriters\<close>, which
  \<open>NexusWriter\<close> only imports. The instance writes the canonical chains that the spec
  lists among the canonical reference values: the detector's two-theta axis at \<open>0\<close>
  and base of its chain, \<open>det_z\<close> with the vector \<open>[0, 0, -1]\<close> depending on
  two-theta, the sample's \<open>depends_on\<close> on \<open>phi\<close>, and the sample axes in the order
  x, y, z, phi, kappa, omega.
\<close>

definition canonical_detector_transformations :: node where
  "canonical_detector_transformations =
     Group [(''two_theta'',
             Group [(''two_theta'', Dataset (PArr [0])
                       [(''depends_on'', PBytes ''.''),
                        (''transformation_type'', PBytes ''rotation''),
                        (''units'', PBytes ''deg''),
                        (''vector'', PArr [-1, 0, 0])])]
                   [(''NX_class'', PBytes ''NXpositioner'')]),
            (''detector_z'',
             Group [(''det_z'', Dataset (PArr [250])
                       [(''depends_on'', PBytes ''/entry/instrument/detector/transformations/two_theta/two_theta''),
                        (''transformation_type'', PBytes ''translation''),
                        (''units'', PBytes ''mm''),
                        (''vector'', PArr [0, 0, -1])])]
                   [(''NX_class'', PBytes ''NXpositioner'')])]
       [(''NX_class'', PBytes ''NXtransformations'')]"

definition canonical_sample :: node where
  "canonical_sample =
     Group [(''depends_on'', Dataset (PBytes ''/entry/sample/transformations/phi'') []),
            (''transformations'',
             Group [(''omega'', Dataset (PArr [0]) [(''depends_on'', PBytes ''.'')]),
                    (''kappa'', Dataset (PArr [0])
                       [(''depends_on'', PBytes ''/entry/sample/transformations/omega'')]),
                    (''phi'', Dataset (PArr [0])
                       [(''depends_on'', PBytes ''/entry/sample/transformations/kappa'')]),
                    (''sam_z'', Dataset (PArr [0])
                       [(''depends_on'', PBytes ''/entry/sample/transformations/phi'')]),
                    (''sam_y'', Dataset (PArr [0])
                       [(''depends_on'', PBytes ''/entry/sample/transformations/sam_z'')]),
                    (''sam_x'', Dataset (PArr [0])
                       [(''depends_on'', PBytes ''/entry/sample/transformations/sam_y'')])]
               [(''NX_class'', PBytes ''NXtransformations'')])]
       [(''NX_class'', PBytes ''NXsample'')]"

definition writers_example :: "(nat, real \<times> real \<times> scan_by, unit) nx_writers" where
  "writers_example =
     \<lparr> write_NXdata = (\<lambda>datafiles gon mode frame scan_range scan_axis vds.
         bnd (create_group [''entry''] ''data'') (\<lambda>_. ret ())),
       write_NXinstrument = (\<lambda>beam attenuator source.
         bnd (create_group [''entry''] ''instrument'') (\<lambda>_. ret ())),
       write_NXdetector = (\<lambda>detector frame data_type.
         changing [''entry'', ''instrument'']
           (\<lambda>h. create_object h ''detector''
              (Group [(''transformations'', canonical_detector_transformations)]
                 [(''NX_class'', PBytes ''NXdetector'')]))),
       write_NXdetector_module = (\<lambda>module_scope frame detector.
         bnd (create_group [''entry'', ''instrument'', ''detector''] ''module'') (\<lambda>_. ret ())),
       write_NXsource = (\<lambda>source.
         bnd (create_group [''entry''] ''source'') (\<lambda>_. ret ())),
       write_NXsample = (\<lambda>gon frame mode scan_axis scan_range.
         changing [''entry''] (\<lambda>h. create_object h ''sample'' canonical_sample)) \<rparr>"


text \<open>
  \<open>written_file\<close> is the file that \<open>write_NXmx_nexus\<close> writes with this instance, and
  \<open>written_file_checked\<close> the file after \<open>run_checks\<close>. \<open>tristan_file\<close> is a file as
  the checker is meant for, with the detector arm of \<open>detector_arm_at_5\<close> and the
  scrambled sample axes, and \<open>tristan_file_checked\<close> that file after \<open>run_checks\<close>.
  \<open>two_locations_file\<close> has a transformations group in both places, the one under the
  detector without \<open>detector_z\<close>.
\<close>

definition written_file :: node where
  "written_file =
     Group [(''entry'',
             Group [(''definition'', Dataset (PBytes ''NXmx'') []),
                    (''data'', Group [] []),
                    (''instrument'',
                     Group [(''detector'',
                             Group [(''transformations'', canonical_detector_transformations),
                                    (''module'', Group [] [])]
                               [(''NX_class'', PBytes ''NXdetector'')])] []),
                    (''source'', Group [] []),
                    (''sample'', canonical_sample)]
               [(''NX_class'', PBytes ''NXentry''), (''default'', PBytes ''data'')])]
       [(''default'', PStr ''entry'')]"

definition tristan_file :: node where
  "tristan_file =
     Group [(''entry'',
             Group [(''definition'', Dataset (PBytes ''NXmx'') []),
                    (''instrument'',
                     Group [(''detector'',
                             Group [(''transformations'', detector_arm_at_5)] [])] []),
                    (''sample'', Group [(''transformations'', transformations_scrambled)] [])]
               [])]
       []"

definition detector_without_det_z :: node where
  "detector_without_det_z =
     Group [(''two_theta'',
             Group [(''two_theta'', Dataset (PNum 5) [(''depends_on'', PBytes ''.'')])] [])] []"

definition two_locations_file :: node where
  "two_locations_file =
     Group [(''entry'',
             Group [(''definition'', Dataset (PBytes ''NXmx'') []),
                    (''instrument'',
                     Group [(''detector'',
                             Group [(''transformations'', detector_without_det_z)] []),
                            (''transformations'', detector_arm_at_5)] []),
                    (''sample'', canonical_sample)]
               [])]
       []"

definition written_file_checked :: node where
  "written_file_checked =
     Group [(''entry'',
             Group [(''data'', Group [] []),
                    (''instrument'',
                     Group [(''detector'',
                             Group [(''transformations'', canonical_detector_transformations),
                                    (''module'', Group [] [])]
                               [(''NX_class'', PBytes ''NXdetector'')])] []),
                    (''source'', Group [] []),
                    (''sample'', canonical_sample),
                    (''definition'', Dataset (PBytes ''NXmx'') [])]
               [(''NX_class'', PBytes ''NXentry''), (''default'', PBytes ''data'')])]
       [(''default'', PStr ''entry'')]"

definition transformations_fixed :: node where
  "transformations_fixed =
     Group [(''omega'', Dataset (PArr [0, 1, 2])
               [(''depends_on'', PBytes ''.''), (''units'', PBytes ''deg'')]),
            (''kappa'', Dataset (PNum 0)
               [(''depends_on'', PBytes ''/entry/sample/transformations/omega'')]),
            (''phi'', Dataset (PNum 0)
               [(''depends_on'', PBytes ''/entry/sample/transformations/kappa'')]),
            (''sam_x'', Dataset (PNum 0)
               [(''depends_on'', PBytes ''/entry/sample/transformations/sam_y'')]),
            (''sam_y'', Dataset (PNum 0)
               [(''depends_on'', PBytes ''/entry/sample/transformations/sam_z'')]),
            (''sam_z'', Dataset (PNum 0)
               [(''vector'', PArr [0, 0, 1]),
                (''depends_on'', PBytes ''/entry/sample/transformations/phi'')])]
       [(''NX_class'', PBytes ''NXtransformations'')]"

definition tristan_file_checked :: node where
  "tristan_file_checked =
     Group [(''entry'',
             Group [(''instrument'',
                     Group [(''detector'',
                             Group [(''transformations'', detector_arm_checked)] [])] []),
                    (''sample'',
                     Group [(''transformations'', transformations_fixed),
                            (''depends_on'',
                             Dataset (PBytes ''/entry/sample/transformations/phi'') [])] []),
                    (''definition'', Dataset (PBytes ''NXmx'') [])]
               [])]
       []"

definition two_locations_checked :: node where
  "two_locations_checked =
     Group [(''entry'',
             Group [(''instrument'',
                     Group [(''detector'',
                             Group [(''transformations'',
                                     Group [(''two_theta'',
                                             Group [(''two_theta'', Dataset (PArr [0])
                                                       [(''depends_on'', PBytes ''.'')])] [])] [])]
                               []),
                            (''transformations'', detector_arm_checked)] []),
                    (''sample'', canonical_sample),
                    (''definition'', Dataset (PBytes ''NXmx'') [])]
               [])]
       []"

section \<open>Properties\<close>

lemmas act_defs = ret_def bnd_def thn_def eval_def try_KeyError_def when_true_def info_def
  reading_def changing_def item_def value_of_def attr_get_def attr_set_def del_item_def
  create_dataset_def as_read_def

lemma thn_Inr:
  assumes "thn m f s = (Inr x, s'')"
  obtains s' where "m s = (Inr (), s')" "f s' = (Inr x, s'')"
  using assms by (auto simp: thn_def bnd_def split: prod.splits sum.splits)

lemma getitem_two:
  assumes "getitem f [k1, k2] = Inr d"
  obtains m a em ea where "f = Group m a" "map_of m k1 = Some (Group em ea)"
    "map_of em k2 = Some d"
proof -
  from assms obtain m a where f: "f = Group m a"
    by (cases f) (auto simp: getitem_def)
  from assms f obtain c where c: "map_of m k1 = Some c" "locate c [k2] = Inr d"
    by (auto simp: getitem_def split: option.splits)
  from c(2) obtain em ea where "c = Group em ea" "map_of em k2 = Some d"
    by (cases c) (auto split: option.splits)
  with f c that show thesis by blast
qed

subsection \<open>The application definition\<close>

text \<open>
  Claim C8. A definition that is not \<open>NXmx\<close> is deleted and created again as \<open>NXmx\<close>,
  as the claim says: \<open>file_NXclassified\<close> ends with the definition \<open>b"NXmx"\<close>. But a
  definition that is already \<open>NXmx\<close> is not left as it is. The value is read as the
  bytes \<open>b"NXmx"\<close> and compared with the \<open>str\<close> \<open>"NXmx"\<close>: on \<open>file_NXmx\<close> the
  function logs the fix, deletes the dataset and creates it again, and the attribute
  that the dataset carried is gone.
\<close>

theorem definition_NXmx_rewritten_all_the_same:
  "getitem file_NXmx [''entry'', ''definition''] =
     Inr (Dataset (PBytes ''NXmx'') [(''note'', PStr ''kept'')])
   \<and> check_definition (file_NXmx, []) =
       (Inr (),
        (Group [(''entry'', Group [(''definition'', Dataset (PBytes ''NXmx'') [])] [])] [],
         [MsgVal ''Application definition: '' (PBytes ''NXmx''),
          Msg ''Fixing definition to NXmx'', Msg '''']))
   \<and> Group [(''entry'', Group [(''definition'', Dataset (PBytes ''NXmx'') [])] [])] [] \<noteq>
       file_NXmx
   \<and> check_definition (file_NXclassified, []) =
       (Inr (),
        (Group [(''entry'', Group [(''definition'', Dataset (PBytes ''NXmx'') [])] [])] [],
         [MsgVal ''Application definition: '' (PBytes ''NXclassified''),
          Msg ''Fixing definition to NXmx'', Msg '''']))"
  by (simp add: file_NXmx_def file_NXclassified_def check_definition_def act_defs
      getitem_def read_value_def py_ne_def delitem_def create_object_def)

subsection \<open>The sample's depends_on\<close>

lemma check_sample_depends_on_shape:
  "check_sample_depends_on (Group m a, l) =
    (case map_of m ''depends_on'' of
       None \<Rightarrow>
         (Inr (), (Group (AList.update ''depends_on''
                     (Dataset (PBytes ''/entry/sample/transformations/phi'') []) m) a,
                   l @ [Msg ''Sample depends_on field did not exist, creating now ...'']))
     | Some (Dataset v da) \<Rightarrow>
         (if v = PBytes ''/entry/sample/transformations/phi'' then (Inr (), (Group m a, l))
          else (Inr (), (Group (AList.update ''depends_on''
                     (Dataset (PBytes ''/entry/sample/transformations/phi'') [])
                     (AList.delete ''depends_on'' m)) a,
                   l @ [Msg ''Fixing sample depends_on field ...''])))
     | Some (Group gm ga) \<Rightarrow> (Inl TypeError, (Group m a, l)))"
  by (simp add: check_sample_depends_on_def act_defs getitem_def read_value_def py_ne_def
      delitem_def create_object_def update_conv' delete_conv'
      split: option.splits node.splits)

lemma check_sample_depends_on_Dataset:
  "check_sample_depends_on (Dataset v a, l) = (Inl ValueError, (Dataset v a, l))"
  by (simp add: check_sample_depends_on_def act_defs getitem_def)

text \<open>
  Claim C7. Whenever \<open>check_sample_depends_on\<close> returns, the group has a dataset
  \<open>depends_on\<close> with the value \<open>b"/entry/sample/transformations/phi"\<close>. When the name
  was absent the function returns and the dataset is created; when a dataset of another
  value was there it is deleted and one of that value is created; when the value was
  already that one, the group and the log are as they were.
\<close>

theorem check_sample_depends_on_ensures:
  "(check_sample_depends_on (g, l) = (Inr (), (g', l')) \<longrightarrow>
      (\<exists>da. getitem g' [''depends_on''] =
         Inr (Dataset (PBytes ''/entry/sample/transformations/phi'') da)))
   \<and> (getitem g [''depends_on''] = Inl KeyError \<longrightarrow>
      (\<exists>g2. create_object g ''depends_on''
              (Dataset (PBytes ''/entry/sample/transformations/phi'') []) = Inr g2
         \<and> check_sample_depends_on (g, l) =
            (Inr (), (g2, l @ [Msg ''Sample depends_on field did not exist, creating now ...'']))))
   \<and> (getitem g [''depends_on''] = Inr (Dataset v da)
        \<and> v \<noteq> PBytes ''/entry/sample/transformations/phi'' \<longrightarrow>
      (\<exists>g1 g2. delitem g [''depends_on''] = Inr g1
         \<and> create_object g1 ''depends_on''
              (Dataset (PBytes ''/entry/sample/transformations/phi'') []) = Inr g2
         \<and> check_sample_depends_on (g, l) =
            (Inr (), (g2, l @ [Msg ''Fixing sample depends_on field ...'']))))
   \<and> (getitem g [''depends_on''] =
         Inr (Dataset (PBytes ''/entry/sample/transformations/phi'') da) \<longrightarrow>
      check_sample_depends_on (g, l) = (Inr (), (g, l)))"
proof (cases g)
  case (Dataset v0 a0)
  then show ?thesis
    by (simp add: check_sample_depends_on_Dataset getitem_def)
next
  case (Group m a)
  show ?thesis
    unfolding Group check_sample_depends_on_shape
    by (auto simp: getitem_def delitem_def create_object_def update_conv' delete_conv'
        split: option.splits node.splits if_splits)
qed

theorem check_sample_depends_on_ensures_witness:
  "(\<exists>g'. check_sample_depends_on (sample_without_depends_on, []) =
       (Inr (), (g', [Msg ''Sample depends_on field did not exist, creating now ...'']))
     \<and> getitem g' [''depends_on''] =
         Inr (Dataset (PBytes ''/entry/sample/transformations/phi'') []))
   \<and> (\<exists>g'. check_sample_depends_on (sample_wrong_depends_on, []) =
       (Inr (), (g', [Msg ''Fixing sample depends_on field ...'']))
     \<and> getitem g' [''depends_on''] =
         Inr (Dataset (PBytes ''/entry/sample/transformations/phi'') []))
   \<and> check_sample_depends_on (sample_right_depends_on, []) =
       (Inr (), (sample_right_depends_on, []))"
proof -
  have a: "getitem sample_without_depends_on [''depends_on''] = Inl KeyError"
    by (simp add: sample_without_depends_on_def getitem_def)
  have b: "getitem sample_wrong_depends_on [''depends_on''] =
      Inr (Dataset (PBytes ''/entry/sample/transformations/omega'') [(''note'', PStr ''old'')])
    \<and> PBytes ''/entry/sample/transformations/omega'' \<noteq> PBytes ''/entry/sample/transformations/phi''"
    by (simp add: sample_wrong_depends_on_def getitem_def)
  have c: "getitem sample_right_depends_on [''depends_on''] =
      Inr (Dataset (PBytes ''/entry/sample/transformations/phi'') [(''note'', PStr ''old'')])"
    by (simp add: sample_right_depends_on_def getitem_def)
  note t1 = check_sample_depends_on_ensures
    [of sample_without_depends_on "[]" undefined undefined undefined undefined]
  note t2 = check_sample_depends_on_ensures
    [of sample_wrong_depends_on "[]" undefined undefined
        "PBytes ''/entry/sample/transformations/omega''" "[(''note'', PStr ''old'')]"]
  note t3 = check_sample_depends_on_ensures
    [of sample_right_depends_on "[]" sample_right_depends_on "[]" undefined "[(''note'', PStr ''old'')]"]
  from t1 a obtain g2 where g2: "create_object sample_without_depends_on ''depends_on''
              (Dataset (PBytes ''/entry/sample/transformations/phi'') []) = Inr g2"
     "check_sample_depends_on (sample_without_depends_on, []) =
            (Inr (), (g2, [Msg ''Sample depends_on field did not exist, creating now ...'']))"
    by auto
  from check_sample_depends_on_ensures [of sample_without_depends_on "[]" g2
      "[Msg ''Sample depends_on field did not exist, creating now ...'']"] g2
  have p1: "getitem g2 [''depends_on''] =
         Inr (Dataset (PBytes ''/entry/sample/transformations/phi'') [])"
    by (auto simp: sample_without_depends_on_def create_object_def getitem_def)
  from t2 b obtain h2 where h2:
     "check_sample_depends_on (sample_wrong_depends_on, []) =
            (Inr (), (h2, [Msg ''Fixing sample depends_on field ...'']))"
     "getitem h2 [''depends_on''] = Inr (Dataset (PBytes ''/entry/sample/transformations/phi'') [])"
    by (auto simp: sample_wrong_depends_on_def delitem_def create_object_def getitem_def)
  from t3 c have p3: "check_sample_depends_on (sample_right_depends_on, []) =
       (Inr (), (sample_right_depends_on, []))" by simp
  from g2 p1 h2 p3 show ?thesis by blast
qed

subsection \<open>The dependency tree of the goniometer\<close>

lemma attrs_of_with_attrs: "attrs_of (with_attrs h a) = a"
  by (cases h) simp_all

lemma fix_axis_depends_on_shape:
  "fix_axis_depends_on ax t (Group m a, l) =
     (case map_of m ax of None \<Rightarrow> (Inl KeyError, (Group m a, l))
      | Some h \<Rightarrow>
         (case map_of (attrs_of h) ''depends_on'' of
            None \<Rightarrow> (Inl KeyError, (Group m a, l))
          | Some v \<Rightarrow>
              (Inr (), ((if v = PBytes t then Group m a
                         else Group (AList.update ax (write_attr h ''depends_on'' (PBytes t)) m) a), l))))"
  by (simp add: fix_axis_depends_on_def act_defs getitem_def read_attr_def py_ne_def
      split: option.splits)

lemma fix_axis_depends_on_Dataset:
  "fix_axis_depends_on ax t (Dataset v a, l) = (Inl ValueError, (Dataset v a, l))"
  by (simp add: fix_axis_depends_on_def act_defs getitem_def)

lemma fix_axis_post:
  assumes "fix_axis_depends_on ax t (g, l) = (Inr (), (g', l'))"
  shows "depends_on_is g' ax t \<and> l' = l
    \<and> (\<forall>ax' t'. ax' \<noteq> ax \<longrightarrow> depends_on_is g ax' t' \<longrightarrow> depends_on_is g' ax' t')"
proof (cases g)
  case (Dataset v a)
  with assms show ?thesis by (simp add: fix_axis_depends_on_Dataset)
next
  case (Group m a)
  with assms show ?thesis
    by (auto simp: fix_axis_depends_on_shape depends_on_is_def attrs_of_with_attrs
      getitem_def read_attr_def write_attr_def update_conv'
      split: option.splits if_splits)
qed

lemma fix_axis_total:
  assumes "has_depends_on g ax"
  shows "\<exists>g'. fix_axis_depends_on ax t (g, l) = (Inr (), (g', l))
          \<and> (\<forall>ax'. has_depends_on g ax' \<longrightarrow> has_depends_on g' ax')"
proof (cases g)
  case (Dataset v a)
  with assms show ?thesis by (simp add: has_depends_on_def getitem_def)
next
  case (Group m a)
  with assms show ?thesis
    by (auto simp: fix_axis_depends_on_shape has_depends_on_def attrs_of_with_attrs
      getitem_def read_attr_def write_attr_def update_conv'
      split: option.splits if_splits)
qed


lemma I19_returns_chain:
  assumes "check_I19_dependency_tree (g, l) = (Inr (), (g', l'))"
  shows "I19_chain g'"
  using assms unfolding check_I19_dependency_tree_def I19_chain_def
  apply (elim thn_Inr)
  apply (clarsimp simp: info_def)
  apply (drule fix_axis_post)+
  apply simp
  done

lemma thn_info: "thn (info msg) f (g, l) = f (g, l @ [msg])"
  by (simp add: thn_def bnd_def info_def)

lemma thn_fix_axis:
  "fix_axis_depends_on ax t s = (Inr (), s') \<Longrightarrow> thn (fix_axis_depends_on ax t) f s = f s'"
  by (simp add: thn_def bnd_def)

lemma I19_total:
  assumes "list_all (has_depends_on g) [''omega'', ''kappa'', ''phi'', ''sam_x'', ''sam_y'', ''sam_z'']"
  shows "\<exists>g'. check_I19_dependency_tree (g, l) =
     (Inr (), (g', l @ [Msg ''The dependency tree on I19-2 should follow this order:'',
                        Msg ''x - y - z - phi - kappa - omega'']))"
proof -
  from assms have h: "has_depends_on g ''omega''" "has_depends_on g ''kappa''"
    "has_depends_on g ''phi''" "has_depends_on g ''sam_x''" "has_depends_on g ''sam_y''"
    "has_depends_on g ''sam_z''" by simp_all
  let ?l = "l @ [Msg ''The dependency tree on I19-2 should follow this order:'',
                        Msg ''x - y - z - phi - kappa - omega'']"
  from fix_axis_total [OF h(1), of "''.''" ?l] obtain g1 where
    1: "fix_axis_depends_on ''omega'' ''.'' (g, ?l) = (Inr (), (g1, ?l))"
    and p1: "\<forall>ax'. has_depends_on g ax' \<longrightarrow> has_depends_on g1 ax'" by blast
  from p1 h have h1: "has_depends_on g1 ''kappa''" by blast
  from fix_axis_total [OF h1, of "''/entry/sample/transformations/omega''" ?l] obtain g2 where
    2: "fix_axis_depends_on ''kappa'' ''/entry/sample/transformations/omega'' (g1, ?l) = (Inr (), (g2, ?l))"
    and p2: "\<forall>ax'. has_depends_on g1 ax' \<longrightarrow> has_depends_on g2 ax'" by blast
  from p1 p2 h have h2: "has_depends_on g2 ''phi''" by blast
  from fix_axis_total [OF h2, of "''/entry/sample/transformations/kappa''" ?l] obtain g3 where
    3: "fix_axis_depends_on ''phi'' ''/entry/sample/transformations/kappa'' (g2, ?l) = (Inr (), (g3, ?l))"
    and p3: "\<forall>ax'. has_depends_on g2 ax' \<longrightarrow> has_depends_on g3 ax'" by blast
  from p1 p2 p3 h have h3: "has_depends_on g3 ''sam_x''" by blast
  from fix_axis_total [OF h3, of "''/entry/sample/transformations/sam_y''" ?l] obtain g4 where
    4: "fix_axis_depends_on ''sam_x'' ''/entry/sample/transformations/sam_y'' (g3, ?l) = (Inr (), (g4, ?l))"
    and p4: "\<forall>ax'. has_depends_on g3 ax' \<longrightarrow> has_depends_on g4 ax'" by blast
  from p1 p2 p3 p4 h have h4: "has_depends_on g4 ''sam_y''" by blast
  from fix_axis_total [OF h4, of "''/entry/sample/transformations/sam_z''" ?l] obtain g5 where
    5: "fix_axis_depends_on ''sam_y'' ''/entry/sample/transformations/sam_z'' (g4, ?l) = (Inr (), (g5, ?l))"
    and p5: "\<forall>ax'. has_depends_on g4 ax' \<longrightarrow> has_depends_on g5 ax'" by blast
  from p1 p2 p3 p4 p5 h have h5: "has_depends_on g5 ''sam_z''" by blast
  from fix_axis_total [OF h5, of "''/entry/sample/transformations/phi''" ?l] obtain g6 where
    6: "fix_axis_depends_on ''sam_z'' ''/entry/sample/transformations/phi'' (g5, ?l) = (Inr (), (g6, ?l))"
    by blast
  have "check_I19_dependency_tree (g, l) = (Inr (), (g6, ?l))"
    unfolding check_I19_dependency_tree_def
    by (simp add: thn_info thn_fix_axis [OF 1] thn_fix_axis [OF 2] thn_fix_axis [OF 3]
        thn_fix_axis [OF 4] thn_fix_axis [OF 5] 6)
  then show ?thesis by blast
qed

text \<open>
  Claim C6. Whenever \<open>check_I19_dependency_tree\<close> returns, the six axes carry the
  canonical chain: \<open>sam_x\<close> depends on \<open>sam_y\<close>, \<open>sam_y\<close> on \<open>sam_z\<close>, \<open>sam_z\<close> on
  \<open>phi\<close>, \<open>phi\<close> on \<open>kappa\<close>, \<open>kappa\<close> on \<open>omega\<close> and \<open>omega\<close> on \<open>"."\<close>. And it
  does return, with the chain, on every group that has the six members, each with an
  attribute \<open>depends_on\<close>.
\<close>

theorem check_I19_dependency_tree_canonical:
  "(check_I19_dependency_tree (g, l) = (Inr (), (g', l')) \<longrightarrow> I19_chain g')
   \<and> (list_all (has_depends_on g)
         [''omega'', ''kappa'', ''phi'', ''sam_x'', ''sam_y'', ''sam_z''] \<longrightarrow>
       (\<exists>g2. check_I19_dependency_tree (g, l) =
          (Inr (), (g2, l @ [Msg ''The dependency tree on I19-2 should follow this order:'',
                             Msg ''x - y - z - phi - kappa - omega'']))
          \<and> I19_chain g2))"
proof (intro conjI impI)
  assume "check_I19_dependency_tree (g, l) = (Inr (), (g', l'))"
  then show "I19_chain g'" by (rule I19_returns_chain)
next
  assume "list_all (has_depends_on g)
         [''omega'', ''kappa'', ''phi'', ''sam_x'', ''sam_y'', ''sam_z'']"
  from I19_total [OF this, of l] obtain g2 where
    r: "check_I19_dependency_tree (g, l) =
          (Inr (), (g2, l @ [Msg ''The dependency tree on I19-2 should follow this order:'',
                             Msg ''x - y - z - phi - kappa - omega'']))"
    by blast
  with I19_returns_chain [OF r] show "\<exists>g2. check_I19_dependency_tree (g, l) =
          (Inr (), (g2, l @ [Msg ''The dependency tree on I19-2 should follow this order:'',
                             Msg ''x - y - z - phi - kappa - omega'']))
          \<and> I19_chain g2" by blast
qed

theorem check_I19_dependency_tree_canonical_witness:
  "list_all (has_depends_on transformations_scrambled)
     [''omega'', ''kappa'', ''phi'', ''sam_x'', ''sam_y'', ''sam_z'']
   \<and> \<not> I19_chain transformations_scrambled
   \<and> (\<exists>g2. check_I19_dependency_tree (transformations_scrambled, []) =
          (Inr (), (g2, [Msg ''The dependency tree on I19-2 should follow this order:'',
                         Msg ''x - y - z - phi - kappa - omega'']))
          \<and> I19_chain g2)"
proof -
  have h: "list_all (has_depends_on transformations_scrambled)
     [''omega'', ''kappa'', ''phi'', ''sam_x'', ''sam_y'', ''sam_z'']"
    by (simp add: transformations_scrambled_def has_depends_on_def getitem_def read_attr_def)
  have n: "\<not> I19_chain transformations_scrambled"
    by (simp add: transformations_scrambled_def I19_chain_def depends_on_is_def getitem_def
        read_attr_def)
  from check_I19_dependency_tree_canonical [of transformations_scrambled "[]"] h n
  show ?thesis by simp
qed

subsection \<open>Paths and attribute lists\<close>

lemma locate_replace_same:
  "locate g p = Inr x \<Longrightarrow> locate (replace g p y) p = Inr y"
  by (induction g p arbitrary: x rule: locate.induct)
     (auto simp: update_conv' split: option.splits)

lemma replace_replace: "replace (replace g p y) p z = replace g p z"
  by (induction g p y rule: replace.induct)
     (auto simp: update_conv' split: option.splits)

lemma locate_replace_other:
  "k \<noteq> k' \<Longrightarrow> locate (replace g (k # p) x) (k' # q) = locate g (k' # q)"
  by (cases g) (auto simp: update_conv' split: option.splits)

lemma locate_append:
  "locate g (p @ q) = (case locate g p of Inl e \<Rightarrow> Inl KeyError | Inr h \<Rightarrow> locate h q)"
  by (induction g p rule: locate.induct) (auto split: option.splits)

lemma update_absent: "k \<notin> fst ` set al \<Longrightarrow> AList.update k v al = al @ [(k, v)]"
  by (induction al) auto

lemma fold_update_distinct:
  "distinct (map fst (a0 @ d)) \<Longrightarrow> fold (\<lambda>(k, v). AList.update k v) d a0 = a0 @ d"
proof (induction d arbitrary: a0)
  case Nil
  then show ?case by simp
next
  case (Cons kv d)
  obtain k v where kv: "kv = (k, v)" by (cases kv)
  from Cons.prems kv have "k \<notin> fst ` set a0" by auto
  then have u: "AList.update k v a0 = a0 @ [(k, v)]" by (rule update_absent)
  from Cons.prems kv have "distinct (map fst ((a0 @ [(k, v)]) @ d))" by simp
  from Cons.IH [OF this] u kv show ?case by simp
qed

lemma distinct_copy_attrs:
  "distinct (map fst d) \<Longrightarrow> distinct (map fst (copy_attrs a ks d))"
  by (induction ks arbitrary: d) (auto simp: distinct_update split: option.splits)

lemma map_of_copy_attrs:
  "map_of (copy_attrs a ks d) k =
     (if k \<in> set ks \<and> map_of a k \<noteq> None then map_of a k else map_of d k)"
  by (induction ks arbitrary: d) (auto simp: update_conv' split: option.splits)

lemma map_of_copy_attrs_all: "map_of (copy_attrs a (map fst a) []) = map_of a"
proof
  fix k
  show "map_of (copy_attrs a (map fst a) []) k = map_of a k"
  proof (cases "k \<in> fst ` set a")
    case True
    then have "map_of a k \<noteq> None" by (simp add: map_of_eq_None_iff)
    with True show ?thesis by (simp add: map_of_copy_attrs)
  next
    case False
    then have "map_of a k = None" by (simp add: map_of_eq_None_iff)
    then show ?thesis by (simp add: map_of_copy_attrs)
  qed
qed

lemma replace_same: "locate g p = Inr h \<Longrightarrow> replace g p h = g"
  by (induction g p arbitrary: h rule: locate.induct)
     (auto simp: update_triv split: option.splits)

lemma attr_set_apply:
  "locate g p = Inr h \<Longrightarrow> attr_set p k v (g, l) = (Inr (), (replace g p (write_attr h k v), l))"
  by (simp add: attr_set_def changing_def)

lemma restore_attrs_apply:
  "locate g p = Inr (Dataset x a0) \<Longrightarrow>
   restore_attrs p d (g, l) =
     (Inr (), (replace g p (Dataset x (fold (\<lambda>(k, v). AList.update k v) d a0)), l))"
proof (induction d arbitrary: g a0)
  case Nil
  then show ?case
    by (simp add: ret_def replace_same)
next
  case (Cons kv d)
  obtain k v where kv: "kv = (k, v)" by (cases kv)
  have s: "attr_set p k v (g, l) = (Inr (), (replace g p (Dataset x (AList.update k v a0)), l))"
    using attr_set_apply [OF Cons.prems] by (simp add: write_attr_def)
  have "locate (replace g p (Dataset x (AList.update k v a0))) p =
      Inr (Dataset x (AList.update k v a0))"
    using Cons.prems by (rule locate_replace_same)
  from Cons.IH [OF this] s kv show ?case
    by (simp add: thn_def bnd_def replace_replace)
qed


lemma fix_two_theta_value_shape:
  assumes "map_of m nm = Some (Group tm ta)" and "map_of tm nm = Some (Dataset v a)"
  shows "fix_two_theta_value nm [nm] (Group m ga, l) =
    (case ne_zero v of
       Inl e \<Rightarrow> (Inl e, (Group m ga, l))
     | Inr c \<Rightarrow>
         (if c then
            (Inr (), (Group (AList.update nm
                        (Group (AList.update nm
                                  (Dataset (PArr [0]) (copy_attrs a (map fst a) []))
                                  (AList.delete nm tm)) ta) m) ga,
                      l @ [Msg ''Correcting the value of two_theta arm ...'']))
          else (Inr (), (Group m ga, l))))"
proof -
  let ?d = "copy_attrs a (map fst a) []"
  let ?g2 = "Group (AList.update nm
                (Group (AList.update nm (Dataset (PArr [0]) []) (AList.delete nm tm)) ta) m) ga"
  have loc: "locate ?g2 [nm, nm] = Inr (Dataset (PArr [0]) [])"
    by (simp add: update_conv')
  have dist: "distinct (map fst ([] @ ?d))"
    using distinct_copy_attrs [of "[]" a "map fst a"] by simp
  have r: "restore_attrs [nm, nm] ?d (?g2, l') =
     (Inr (), (replace ?g2 [nm, nm] (Dataset (PArr [0]) ?d), l'))" for l'
    using restore_attrs_apply [OF loc, of ?d l'] fold_update_distinct [OF dist] by simp
  have rep: "replace ?g2 [nm, nm] (Dataset (PArr [0]) ?d) =
     Group (AList.update nm
              (Group (AList.update nm (Dataset (PArr [0]) ?d) (AList.delete nm tm)) ta) m) ga"
    by (simp add: update_conv')
  show ?thesis
    using assms
    by (simp add: fix_two_theta_value_def act_defs getitem_def read_value_def
        delitem_def create_object_def update_conv' delete_conv' r rep
        split: sum.splits)
qed

subsection \<open>The detector transformations\<close>

lemma ne_zero_False: "ne_zero v = Inr False \<Longrightarrow> v = PArr [] \<or> is_zero v"
  by (auto simp: ne_zero_def is_zero_def split: pyval.splits list.splits if_splits)

lemma ne_zero_True: "ne_zero v = Inr True \<Longrightarrow> v \<noteq> PArr []"
  by (auto simp: ne_zero_def)

lemma np_any_ne_canonical: "np_any_ne v [0, 0, -1] = (v \<noteq> PArr [0, 0, -1])"
proof (cases v)
  case (PArr xs)
  show ?thesis
  proof (cases "length xs = 3")
    case True
    then obtain a b c where "xs = [a, b, c]"
      by (auto simp: numeral_3_eq_3 length_Suc_conv)
    with PArr show ?thesis by (auto simp: np_any_ne_def)
  next
    case False
    with PArr show ?thesis
      by (cases xs) (auto simp: np_any_ne_def)
  qed
qed (auto simp: np_any_ne_def)

lemma locate_getitem: "locate g (k # p) = Inr x \<Longrightarrow> getitem g (k # p) = Inr x"
  by (cases g) (auto simp: getitem_def)

lemma find_two_theta_post:
  assumes "find_two_theta (g, l) = (Inr (nm, tt), s')"
  shows "s' = (g, l) \<and> tt = [nm]
    \<and> nm = (if getitem g [''two_theta''] = Inl KeyError then ''twotheta'' else ''two_theta'')
    \<and> (\<exists>x. locate g [nm] = Inr x)"
  using assms
  by (cases g)
     (auto simp: find_two_theta_def act_defs getitem_def split: option.splits if_splits)

lemma fix_two_theta_value_post:
  assumes "fix_two_theta_value nm [nm] (g, l) = (Inr (), (g', l'))"
  shows "\<exists>v a v' a'. locate g [nm, nm] = Inr (Dataset v a)
     \<and> locate g' [nm, nm] = Inr (Dataset v' a') \<and> map_of a' = map_of a
     \<and> (if v = PArr [] then v' = PArr [] else is_zero v')
     \<and> (if ne_zero v = Inr True then v' = PArr [0] \<and> l' = l @ [Msg ''Correcting the value of two_theta arm ...'']
         else g' = g \<and> l' = l)
     \<and> (\<forall>k q. k \<noteq> nm \<longrightarrow> locate g' (k # q) = locate g (k # q))"
proof -
  from assms obtain m ga where g: "g = Group m ga"
    by (cases g) (auto simp: fix_two_theta_value_def act_defs getitem_def)
  from assms g obtain tt where tt: "map_of m nm = Some tt"
    by (cases "map_of m nm") (auto simp: fix_two_theta_value_def act_defs getitem_def)
  from assms g tt obtain tm ta where t: "tt = Group tm ta"
    by (cases tt) (auto simp: fix_two_theta_value_def act_defs getitem_def)
  from assms g tt t obtain d where d: "map_of tm nm = Some d"
    by (cases "map_of tm nm") (auto simp: fix_two_theta_value_def act_defs getitem_def)
  from assms g tt t d obtain v a where dd: "d = Dataset v a"
    by (cases d) (auto simp: fix_two_theta_value_def act_defs getitem_def read_value_def)
  note shape = fix_two_theta_value_shape [OF tt [unfolded t] d [unfolded dd], of ga l]
  from assms shape g obtain c where c: "ne_zero v = Inr c"
    by (cases "ne_zero v") auto
  show ?thesis
  proof (cases c)
    case True
    with assms shape g c tt t d dd ne_zero_True [of v] show ?thesis
      by (auto simp: update_conv' is_zero_def map_of_copy_attrs_all)
  next
    case False
    with assms shape g c have same: "g' = g" "l' = l" by auto
    from False c ne_zero_False [of v] have z: "v = PArr [] \<or> is_zero v" by simp
    show ?thesis
    proof (cases "v = PArr []")
      case True
      with same g tt t d dd c False show ?thesis by auto
    next
      case nonempty: False
      with z have "is_zero v" by simp
      with nonempty same g tt t d dd c False show ?thesis by auto
    qed
  qed
qed

lemma fix_det_z_vector_post:
  assumes "fix_det_z_vector p (g, l) = (Inr (), (g', l'))"
  shows "\<exists>h h'. locate g p = Inr h \<and> g' = replace g p h'
     \<and> map_of (attrs_of h') = (map_of (attrs_of h))(''vector'' \<mapsto> PArr [0, 0, -1])"
proof -
  from assms obtain h where h: "locate g p = Inr h"
    by (cases "locate g p") (auto simp: fix_det_z_vector_def act_defs)
  from assms h obtain vec where vec: "map_of (attrs_of h) ''vector'' = Some vec"
    by (cases "map_of (attrs_of h) ''vector''")
       (auto simp: fix_det_z_vector_def act_defs read_attr_def)
  show ?thesis
  proof (cases "vec = PArr [0, 0, -1]")
    case True
    with assms h vec have "g' = g"
      by (simp add: fix_det_z_vector_def act_defs read_attr_def np_any_ne_canonical)
    with h vec True replace_same [OF h] show ?thesis
      by (intro exI [of _ h]) (auto simp: map_upd_triv)
  next
    case False
    with assms h vec have "g' = replace g p (write_attr h ''vector'' (PArr [0, 0, -1]))"
      by (simp add: fix_det_z_vector_def act_defs read_attr_def np_any_ne_canonical)
    with h show ?thesis
      by (intro exI [of _ h] exI [of _ "write_attr h ''vector'' (PArr [0, 0, -1])"])
         (simp add: write_attr_def attrs_of_with_attrs update_conv')
  qed
qed

lemma item_apply:
  "locate g hp = Inr h \<Longrightarrow>
   item hp p (g, l) = (case getitem h p of Inl e \<Rightarrow> (Inl e, (g, l)) | Inr x \<Rightarrow> (Inr (hp @ p), (g, l)))"
  by (simp add: item_def bnd_def reading_def ret_def split: sum.splits)

lemma fix_two_theta_depends_on_post:
  assumes "fix_two_theta_depends_on nm [nm] (g, l) = (Inr (), (g', l'))"
  shows "\<exists>h h'. locate g [nm, nm] = Inr h \<and> g' = replace g [nm, nm] h'
     \<and> h' = with_attrs h (attrs_of h')
     \<and> map_of (attrs_of h') = (map_of (attrs_of h))(''depends_on'' \<mapsto> PBytes ''.'')"
proof -
  from assms obtain tt where tt: "locate g [nm] = Inr tt"
    by (cases "locate g [nm]")
       (auto simp: fix_two_theta_depends_on_def item_def bnd_def reading_def)
  note it = item_apply [OF tt, of "[nm]"]
  from assms it obtain h where h': "getitem tt [nm] = Inr h"
    by (cases "getitem tt [nm]") (auto simp: fix_two_theta_depends_on_def bnd_def)
  with tt have h: "locate g [nm, nm] = Inr h"
    using locate_append [of g "[nm]" "[nm]"] by (cases tt) (auto simp: getitem_def)
  from assms it h' h obtain dep where dep: "map_of (attrs_of h) ''depends_on'' = Some dep"
    by (cases "map_of (attrs_of h) ''depends_on''")
       (auto simp: fix_two_theta_depends_on_def bnd_def attr_get_def reading_def read_attr_def)
  show ?thesis
  proof (cases "dep = PBytes ''.''")
    case True
    with assms it h' h dep have "g' = g"
      by (simp add: fix_two_theta_depends_on_def act_defs read_attr_def py_ne_def)
    with h dep True replace_same [OF h] show ?thesis
      by (intro exI [of _ h]) (cases h; auto simp: map_upd_triv)
  next
    case False
    with assms it h' h dep
    have "g' = replace g [nm, nm] (write_attr h ''depends_on'' (PBytes ''.''))"
      by (simp add: fix_two_theta_depends_on_def bnd_def thn_def when_true_def info_def
          attr_get_def attr_set_def changing_def reading_def read_attr_def py_ne_def)
    with h show ?thesis
      by (intro exI [of _ h] exI [of _ "write_attr h ''depends_on'' (PBytes ''.'')"])
         (cases h; simp add: write_attr_def update_conv')
  qed
qed

lemma fix_det_z_depends_on_state:
  "snd (fix_det_z_depends_on p (g, l)) =
     (g, (case fix_det_z_depends_on p (g, l) of (r, (g', l')) \<Rightarrow> l'))"
  by (auto simp: fix_det_z_depends_on_def act_defs split: sum.splits prod.splits)


lemma bnd_Inr:
  assumes "bnd m f s = (Inr x, s'')"
  obtains y s' where "m s = (Inr y, s')" "f y s' = (Inr x, s'')"
  using assms by (auto simp: bnd_def split: prod.splits sum.splits)

lemma item_post:
  assumes "item hp p (g, l) = (Inr h, s')"
  shows "s' = (g, l) \<and> h = hp @ p"
  using assms by (auto simp: item_def bnd_def reading_def ret_def split: sum.splits)

lemma check_detector_transformations_post:
  assumes "check_detector_transformations (g, l) = (Inr (), (g', l'))"
    and nm: "nm = (if getitem g [''two_theta''] = Inl KeyError then ''twotheta'' else ''two_theta'')"
  shows "\<exists>v0 a0 v a z0 z.
       getitem g [nm, nm] = Inr (Dataset v0 a0)
     \<and> getitem g' [nm, nm] = Inr (Dataset v a)
     \<and> (if v0 = PArr [] then v = PArr [] else is_zero v)
     \<and> (if ne_zero v0 = Inr True then v = PArr [0] else v = v0)
     \<and> map_of a = (map_of a0)(''depends_on'' \<mapsto> PBytes ''.'')
     \<and> getitem g [''detector_z'', ''det_z''] = Inr z0
     \<and> getitem g' [''detector_z'', ''det_z''] = Inr z
     \<and> map_of (attrs_of z) = (map_of (attrs_of z0))(''vector'' \<mapsto> PArr [0, 0, -1])"
proof -
  let ?M1 = "Msg ''On I19-2 the Tristan detector does not sit on two_theta arm, which must be set to 0.''"
  from assms(1) [unfolded check_detector_transformations_def]
  obtain s1 where i1: "info ?M1 (g, l) = (Inr (), s1)"
    and r1: "bnd find_two_theta (\<lambda>(ds_name, two_theta).
     thn (fix_two_theta_value ds_name two_theta)
    (thn (info (Msg ''Additionally, the detector_z vector should be [0,0,-1]''))
    (bnd (item [] [''detector_z'', ''det_z'']) (\<lambda>det_z.
     thn (fix_det_z_vector det_z)
    (thn (info (Msg ''Checking dependency tree of detector for typos ...''))
    (thn (fix_two_theta_depends_on ds_name two_theta)
         (fix_det_z_depends_on det_z))))))) s1 = (Inr (), (g', l'))"
    by (rule thn_Inr)
  from i1 have s1: "s1 = (g, l @ [?M1])" by (simp add: info_def)
  from r1 obtain y s2 where f: "find_two_theta s1 = (Inr y, s2)"
    and r2: "(case y of (ds_name, two_theta) \<Rightarrow>
     thn (fix_two_theta_value ds_name two_theta)
    (thn (info (Msg ''Additionally, the detector_z vector should be [0,0,-1]''))
    (bnd (item [] [''detector_z'', ''det_z'']) (\<lambda>det_z.
     thn (fix_det_z_vector det_z)
    (thn (info (Msg ''Checking dependency tree of detector for typos ...''))
    (thn (fix_two_theta_depends_on ds_name two_theta)
         (fix_det_z_depends_on det_z))))))) s2 = (Inr (), (g', l'))"
    by (rule bnd_Inr)
  obtain n tt where y: "y = (n, tt)" by (cases y)
  from find_two_theta_post [OF f [unfolded s1 y]] nm
  have s2: "s2 = (g, l @ [?M1])" and tt: "tt = [nm]" and n: "n = nm" by simp_all
  from r2 [unfolded y s2 tt n] have r2':
    "thn (fix_two_theta_value nm [nm])
    (thn (info (Msg ''Additionally, the detector_z vector should be [0,0,-1]''))
    (bnd (item [] [''detector_z'', ''det_z'']) (\<lambda>det_z.
     thn (fix_det_z_vector det_z)
    (thn (info (Msg ''Checking dependency tree of detector for typos ...''))
    (thn (fix_two_theta_depends_on nm [nm])
         (fix_det_z_depends_on det_z)))))) (g, l @ [?M1]) = (Inr (), (g', l'))"
    by simp
  then obtain s3 where b2: "fix_two_theta_value nm [nm] (g, l @ [?M1]) = (Inr (), s3)"
    and r3: "thn (info (Msg ''Additionally, the detector_z vector should be [0,0,-1]''))
    (bnd (item [] [''detector_z'', ''det_z'']) (\<lambda>det_z.
     thn (fix_det_z_vector det_z)
    (thn (info (Msg ''Checking dependency tree of detector for typos ...''))
    (thn (fix_two_theta_depends_on nm [nm])
         (fix_det_z_depends_on det_z))))) s3 = (Inr (), (g', l'))"
    by (rule thn_Inr)
  obtain g1 l1 where s3: "s3 = (g1, l1)" by (cases s3)
  from fix_two_theta_value_post [OF b2 [unfolded s3]]
  obtain v0 a0 v1 a1 where p2: "locate g [nm, nm] = Inr (Dataset v0 a0)"
    "locate g1 [nm, nm] = Inr (Dataset v1 a1)" "map_of a1 = map_of a0"
    "if v0 = PArr [] then v1 = PArr [] else is_zero v1"
    "if ne_zero v0 = Inr True then v1 = PArr [0] else g1 = g"
    "\<forall>k q. k \<noteq> nm \<longrightarrow> locate g1 (k # q) = locate g (k # q)"
    by auto
  from r3 [unfolded s3 thn_info]
  obtain dz s4 where i4: "item [] [''detector_z'', ''det_z''] (g1, l1 @ [Msg ''Additionally, the detector_z vector should be [0,0,-1]'']) = (Inr dz, s4)"
    and r4: "thn (fix_det_z_vector dz)
    (thn (info (Msg ''Checking dependency tree of detector for typos ...''))
    (thn (fix_two_theta_depends_on nm [nm])
         (fix_det_z_depends_on dz))) s4 = (Inr (), (g', l'))"
    by (rule bnd_Inr)
  from item_post [OF i4] have s4: "s4 = (g1, l1 @ [Msg ''Additionally, the detector_z vector should be [0,0,-1]''])"
    and dz: "dz = [''detector_z'', ''det_z'']" by simp_all
  from r4 obtain s5 where b3: "fix_det_z_vector dz s4 = (Inr (), s5)"
    and r5: "thn (info (Msg ''Checking dependency tree of detector for typos ...''))
    (thn (fix_two_theta_depends_on nm [nm])
         (fix_det_z_depends_on dz)) s5 = (Inr (), (g', l'))"
    by (rule thn_Inr)
  obtain g2 l2 where s5: "s5 = (g2, l2)" by (cases s5)
  from fix_det_z_vector_post [OF b3 [unfolded s4 s5]]
  obtain z0 z where p3: "locate g1 dz = Inr z0" "g2 = replace g1 dz z"
    "map_of (attrs_of z) = (map_of (attrs_of z0))(''vector'' \<mapsto> PArr [0, 0, -1])"
    by auto
  from r5 [unfolded s5 thn_info]
  obtain s6 where b4: "fix_two_theta_depends_on nm [nm] (g2, l2 @ [Msg ''Checking dependency tree of detector for typos ...'']) = (Inr (), s6)"
    and r6: "fix_det_z_depends_on dz s6 = (Inr (), (g', l'))"
    by (rule thn_Inr)
  obtain g3 l3 where s6: "s6 = (g3, l3)" by (cases s6)
  from fix_two_theta_depends_on_post [OF b4 [unfolded s6]]
  obtain h h' where p4: "locate g2 [nm, nm] = Inr h" "g3 = replace g2 [nm, nm] h'"
    "h' = with_attrs h (attrs_of h')"
    "map_of (attrs_of h') = (map_of (attrs_of h))(''depends_on'' \<mapsto> PBytes ''.'')"
    by auto
  from fix_det_z_depends_on_state [of dz g3 l3] r6 [unfolded s6] have g': "g' = g3"
    by simp
  have ne: "nm \<noteq> ''detector_z''" using nm by simp
  have g2nm: "locate g2 [nm, nm] = Inr (Dataset v1 a1)"
    using p3(2) p2(2) dz locate_replace_other [of "''detector_z''" nm g1 "[''det_z'']" z "[nm]"] ne
    by simp
  with p4(1) have h: "h = Dataset v1 a1" by simp
  with p4(3) have h': "h' = Dataset v1 (attrs_of h')" by simp
  have 1: "locate g' [nm, nm] = Inr (Dataset v1 (attrs_of h'))"
    using g' p4(2) locate_replace_same [OF p4(1), of h'] h' by simp
  have 2: "locate g' [''detector_z'', ''det_z''] = Inr z"
    using g' p4(2) locate_replace_other [of nm "''detector_z''" g2 "[nm]" h' "[''det_z'']"] ne
      p3(2) locate_replace_same [OF p3(1), of z] dz by simp
  have 3: "locate g [''detector_z'', ''det_z''] = Inr z0"
    using p3(1) p2(6) ne dz by auto
  have 4: "if ne_zero v0 = Inr True then v1 = PArr [0] else v1 = v0"
    using p2(5) p2(1) p2(2) by (auto split: if_splits)
  have 5: "map_of (attrs_of h') = (map_of a0)(''depends_on'' \<mapsto> PBytes ''.'')"
    using p4(4) h p2(3) by simp
  from p2(1) 1 2 3 4 5 p2(4) p3(3) show ?thesis
    by (auto simp: locate_getitem)
qed

lemma fix_det_z_vector_total:
  assumes "locate g p = Inr h" and "map_of (attrs_of h) ''vector'' = Some vec"
  shows "\<exists>g' l'. fix_det_z_vector p (g, l) = (Inr (), (g', l'))"
  using assms by (simp add: fix_det_z_vector_def act_defs read_attr_def)

lemma fix_det_z_depends_on_total:
  assumes "locate g p = Inr h" and "map_of (attrs_of h) ''depends_on'' = Some dep"
  shows "\<exists>l'. fix_det_z_depends_on p (g, l) = (Inr (), (g, l'))"
  using assms by (simp add: fix_det_z_depends_on_def act_defs read_attr_def)

lemma fix_two_theta_depends_on_total:
  assumes "getitem g [nm, nm] = Inr h" and "map_of (attrs_of h) ''depends_on'' = Some dep"
  shows "\<exists>g' l'. fix_two_theta_depends_on nm [nm] (g, l) = (Inr (), (g', l'))"
proof -
  from assms(1) obtain m a em ea where "g = Group m a" "map_of m nm = Some (Group em ea)"
    "map_of em nm = Some h" by (rule getitem_two)
  with assms(2) show ?thesis
    by (simp add: fix_two_theta_depends_on_def act_defs read_attr_def getitem_def)
qed

lemma find_two_theta_total:
  assumes "getitem g [nm, nm] = Inr h"
    and "nm = (if getitem g [''two_theta''] = Inl KeyError then ''twotheta'' else ''two_theta'')"
  shows "find_two_theta (g, l) = (Inr (nm, [nm]), (g, l))"
proof -
  from assms(1) obtain m a em ea where "g = Group m a" "map_of m nm = Some (Group em ea)"
    "map_of em nm = Some h" by (rule getitem_two)
  with assms(2) show ?thesis
    by (auto simp: find_two_theta_def act_defs getitem_def split: option.splits if_splits)
qed

lemma fix_two_theta_value_total:
  assumes "getitem g [nm, nm] = Inr (Dataset v a)" and "ne_zero v = Inr c"
  shows "\<exists>g' l'. fix_two_theta_value nm [nm] (g, l) = (Inr (), (g', l'))"
proof -
  from assms(1) obtain m ga em ea where g: "g = Group m ga"
    and 1: "map_of m nm = Some (Group em ea)" and 2: "map_of em nm = Some (Dataset v a)"
    by (rule getitem_two)
  from fix_two_theta_value_shape [OF 1 2, of ga l] assms(2) g show ?thesis
    by simp
qed

lemma check_detector_transformations_total:
  assumes c: "detector_complete g nm"
    and nm: "nm = (if getitem g [''two_theta''] = Inl KeyError then ''twotheta'' else ''two_theta'')"
  shows "\<exists>g' l'. check_detector_transformations (g, l) = (Inr (), (g', l'))"
proof -
  let ?M1 = "Msg ''On I19-2 the Tristan detector does not sit on two_theta arm, which must be set to 0.''"
  let ?M2 = "Msg ''Additionally, the detector_z vector should be [0,0,-1]''"
  let ?M3 = "Msg ''Checking dependency tree of detector for typos ...''"
  let ?dz = "[''detector_z'', ''det_z'']"
  from c obtain v0 a0 cc d0 z0 vec zdep where
    d: "getitem g [nm, nm] = Inr (Dataset v0 a0)" and nz: "ne_zero v0 = Inr cc"
    and dep: "map_of a0 ''depends_on'' = Some d0"
    and z: "getitem g ?dz = Inr z0" and zv: "map_of (attrs_of z0) ''vector'' = Some vec"
    and zd: "map_of (attrs_of z0) ''depends_on'' = Some zdep"
    by (auto simp: detector_complete_def read_value_def read_attr_def
        split: sum.splits node.splits option.splits)
  have ne: "nm \<noteq> ''detector_z''" using nm by simp
  from d obtain m ga where g: "g = Group m ga" by (rule getitem_two)
  note f = find_two_theta_total [OF d nm, of "l @ [?M1]"]
  from fix_two_theta_value_total [OF d nz, of "l @ [?M1]"] obtain g1 l1 where
    b2: "fix_two_theta_value nm [nm] (g, l @ [?M1]) = (Inr (), (g1, l1))" by blast
  from fix_two_theta_value_post [OF b2] d g
  obtain v1 a1 where p2: "locate g1 [nm, nm] = Inr (Dataset v1 a1)" "map_of a1 = map_of a0"
    "\<forall>k q. k \<noteq> nm \<longrightarrow> locate g1 (k # q) = locate g (k # q)"
    by (auto simp: getitem_def)
  from p2(3) ne z g have z1: "locate g1 ?dz = Inr z0" by (simp add: getitem_def)
  then have i4: "item [] ?dz (g1, l1 @ [?M2]) = (Inr ?dz, (g1, l1 @ [?M2]))"
    by (simp add: item_apply [of g1 "[]" g1] locate_getitem)
  from fix_det_z_vector_total [OF z1 zv, of "l1 @ [?M2]"] obtain g2 l2 where
    b3: "fix_det_z_vector ?dz (g1, l1 @ [?M2]) = (Inr (), (g2, l2))" by blast
  from fix_det_z_vector_post [OF b3] z1
  obtain z where p3: "g2 = replace g1 ?dz z"
    "map_of (attrs_of z) = (map_of (attrs_of z0))(''vector'' \<mapsto> PArr [0, 0, -1])"
    by auto
  have g2nm: "locate g2 [nm, nm] = Inr (Dataset v1 a1)"
    using p3(1) p2(1) locate_replace_other [of "''detector_z''" nm g1 "[''det_z'']" z "[nm]"] ne
    by simp
  have "map_of (attrs_of (Dataset v1 a1)) ''depends_on'' = Some d0"
    using p2(2) dep by simp
  from fix_two_theta_depends_on_total [OF locate_getitem [OF g2nm] this, of "l2 @ [?M3]"]
  obtain g3 l3 where
    b4: "fix_two_theta_depends_on nm [nm] (g2, l2 @ [?M3]) = (Inr (), (g3, l3))" by blast
  from fix_two_theta_depends_on_post [OF b4]
  obtain h' where p4: "g3 = replace g2 [nm, nm] h'" by auto
  have z3: "locate g3 ?dz = Inr z"
    using p4 locate_replace_other [of nm "''detector_z''" g2 "[nm]" h' "[''det_z'']"] ne
      p3(1) locate_replace_same [OF z1, of z] by simp
  have "map_of (attrs_of z) ''depends_on'' = Some zdep"
    using p3(2) zd by simp
  from fix_det_z_depends_on_total [OF z3 this, of l3] obtain l4 where
    b5: "fix_det_z_depends_on ?dz (g3, l3) = (Inr (), (g3, l4))" by blast
  have "check_detector_transformations (g, l) = (Inr (), (g3, l4))"
    unfolding check_detector_transformations_def
    by (simp add: bnd_def thn_def info_def f b2 i4 b3 b4 b5)
  then show ?thesis by blast
qed

lemmas h5_defs = getitem_def read_value_def read_attr_def write_attr_def delitem_def
  create_object_def

lemmas check_detector_defs = check_detector_transformations_def find_two_theta_def
  fix_two_theta_value_def fix_det_z_vector_def fix_two_theta_depends_on_def
  fix_det_z_depends_on_def py_ne_def ne_zero_def np_any_ne_def

lemma detector_arm_at_5_run:
  "check_detector_transformations (detector_arm_at_5, []) =
     (Inr (), (detector_arm_checked,
       [Msg ''On I19-2 the Tristan detector does not sit on two_theta arm, which must be set to 0.'',
        Msg ''Correcting the value of two_theta arm ...'',
        Msg ''Additionally, the detector_z vector should be [0,0,-1]'',
        Msg ''Overwriting det_z vector ...'',
        Msg ''Checking dependency tree of detector for typos ...'',
        Msg ''Setting two_theta as base ...'',
        Msg ''Fixing typo in det_z dependency ...'']))"
  by (simp add: detector_arm_at_5_def detector_arm_checked_def check_detector_defs act_defs h5_defs)

lemma detector_arm_checked_run:
  "check_detector_transformations (detector_arm_checked, []) =
     (Inr (), (detector_arm_checked,
       [Msg ''On I19-2 the Tristan detector does not sit on two_theta arm, which must be set to 0.'',
        Msg ''Additionally, the detector_z vector should be [0,0,-1]'',
        Msg ''Checking dependency tree of detector for typos ...'',
        Msg ''Fixing typo in det_z dependency ...'']))"
  by (simp add: detector_arm_checked_def check_detector_defs act_defs h5_defs)

lemma two_theta_name_eq:
  "two_theta_name g =
     (if getitem g [''two_theta''] = Inl KeyError then ''twotheta'' else ''two_theta'')"
  by (simp add: two_theta_name_def)

text \<open>
  Claim C5, as it stands, fails on a two-theta dataset that is empty: the comparison
  \<open>!= 0\<close> of an empty array is an empty array, which the \<open>if\<close> takes for false, so the
  function returns on \<open>detector_arm_empty\<close> and leaves the dataset empty, which is not
  the value 0.
\<close>

theorem empty_two_theta_left_empty:
  "detector_complete detector_arm_empty ''two_theta''
   \<and> check_detector_transformations (detector_arm_empty, []) =
       (Inr (), (detector_arm_empty,
         [Msg ''On I19-2 the Tristan detector does not sit on two_theta arm, which must be set to 0.'',
          Msg ''Additionally, the detector_z vector should be [0,0,-1]'',
          Msg ''Checking dependency tree of detector for typos ...'']))
   \<and> two_theta_value detector_arm_empty ''two_theta'' = Inr (PArr [])
   \<and> \<not> detector_canonical detector_arm_empty ''two_theta''"
  by (simp add: detector_arm_empty_def detector_complete_def detector_canonical_def
      two_theta_value_def detector_links_def is_zero_def check_detector_defs act_defs h5_defs)

text \<open>
  Claim C5, amended. Whenever \<open>check_detector_transformations\<close> returns, the
  \<open>depends_on\<close> of the two-theta dataset (under the name the function found it) is
  \<open>b"."\<close> and the \<open>vector\<close> of \<open>det_z\<close> is \<open>[0, 0, -1]\<close>; the value of the two-theta
  dataset is 0 (the number \<open>0\<close> or the array \<open>[0.0]\<close>), unless the dataset was empty,
  in which case it still is. And the function does return, with these, on every group
  that has the datasets and attributes it reads.
\<close>

theorem check_detector_transformations_canonical_unless_empty:
  "(check_detector_transformations (g, l) = (Inr (), (g', l')) \<longrightarrow>
      (if two_theta_value g (two_theta_name g) = Inr (PArr [])
       then two_theta_value g' (two_theta_name g) = Inr (PArr [])
            \<and> detector_links g' (two_theta_name g)
       else detector_canonical g' (two_theta_name g)))
   \<and> (detector_complete g (two_theta_name g) \<longrightarrow>
      (\<exists>g2 l2. check_detector_transformations (g, l) = (Inr (), (g2, l2))
         \<and> (if two_theta_value g (two_theta_name g) = Inr (PArr [])
             then two_theta_value g2 (two_theta_name g) = Inr (PArr [])
                  \<and> detector_links g2 (two_theta_name g)
             else detector_canonical g2 (two_theta_name g))))"
proof -
  have a: "if two_theta_value g (two_theta_name g) = Inr (PArr [])
       then two_theta_value g2 (two_theta_name g) = Inr (PArr [])
            \<and> detector_links g2 (two_theta_name g)
       else detector_canonical g2 (two_theta_name g)"
    if "check_detector_transformations (g, l) = (Inr (), (g2, l2))" for g2 l2
    using check_detector_transformations_post [OF that two_theta_name_eq]
    by (auto simp: detector_canonical_def two_theta_value_def detector_links_def
        read_value_def read_attr_def)
  from a check_detector_transformations_total [OF _ two_theta_name_eq, of g l]
  show ?thesis by blast
qed

theorem check_detector_transformations_canonical_unless_empty_witness:
  "detector_complete detector_arm_at_5 ''two_theta''
   \<and> two_theta_name detector_arm_at_5 = ''two_theta''
   \<and> two_theta_value detector_arm_at_5 ''two_theta'' = Inr (PNum 5)
   \<and> detector_canonical detector_arm_at_5 ''two_theta'' = False
   \<and> (\<exists>g2 l2. check_detector_transformations (detector_arm_at_5, []) = (Inr (), (g2, l2))
         \<and> detector_canonical g2 ''two_theta'')"
proof -
  have n: "two_theta_name detector_arm_at_5 = ''two_theta''"
    by (simp add: two_theta_name_def detector_arm_at_5_def getitem_def)
  have c: "detector_complete detector_arm_at_5 ''two_theta''"
    by (simp add: detector_complete_def detector_arm_at_5_def h5_defs ne_zero_def)
  have v: "two_theta_value detector_arm_at_5 ''two_theta'' = Inr (PNum 5)"
    by (simp add: two_theta_value_def detector_arm_at_5_def h5_defs)
  have f: "detector_canonical detector_arm_at_5 ''two_theta'' = False"
    by (simp add: detector_canonical_def two_theta_value_def detector_arm_at_5_def h5_defs
        is_zero_def)
  from check_detector_transformations_canonical_unless_empty [of detector_arm_at_5 "[]"]
    n c v f
  show ?thesis by simp
qed

text \<open>
  Claim C4. Let the two-theta dataset hold a value that is not 0 and the attributes
  \<open>a\<close>. The correction of lines 41 to 50 returns, logs itself, and leaves a dataset
  \<open>[0.0]\<close> with the same attributes, key by key; the attributes of the groups and every
  other member are as they were. When the whole function returns, the dataset holds
  \<open>[0.0]\<close> and the attributes \<open>a\<close>, with \<open>depends_on\<close> set to \<open>b"."\<close> by the
  dependency check of lines 59 to 61 (claim C5).
\<close>

theorem two_theta_correction_keeps_attributes:
  assumes "getitem g [nm, nm] = Inr (Dataset v a)" and "ne_zero v = Inr True"
  shows "(\<exists>g1 a1. fix_two_theta_value nm [nm] (g, l) =
              (Inr (), (g1, l @ [Msg ''Correcting the value of two_theta arm ...'']))
            \<and> getitem g1 [nm, nm] = Inr (Dataset (PArr [0]) a1)
            \<and> map_of a1 = map_of a
            \<and> attrs_of g1 = attrs_of g
            \<and> (\<exists>t t1. getitem g [nm] = Inr t \<and> getitem g1 [nm] = Inr t1
                  \<and> attrs_of t1 = attrs_of t)
            \<and> (\<forall>k q. k \<noteq> nm \<longrightarrow> getitem g1 (k # q) = getitem g (k # q))
            \<and> (\<forall>k q. k \<noteq> nm \<longrightarrow> getitem g1 (nm # k # q) = getitem g (nm # k # q)))
     \<and> (nm = two_theta_name g
          \<and> check_detector_transformations (g, l) = (Inr (), (g', l')) \<longrightarrow>
        (\<exists>a'. getitem g' [nm, nm] = Inr (Dataset (PArr [0]) a')
           \<and> map_of a' = (map_of a)(''depends_on'' \<mapsto> PBytes ''.'')))"
proof (intro conjI impI)
  from assms(1) obtain m ga tm ta where g: "g = Group m ga"
    and 1: "map_of m nm = Some (Group tm ta)" and 2: "map_of tm nm = Some (Dataset v a)"
    by (rule getitem_two)
  from fix_two_theta_value_shape [OF 1 2, of ga l] assms(2) g 1 2
  show "\<exists>g1 a1. fix_two_theta_value nm [nm] (g, l) =
              (Inr (), (g1, l @ [Msg ''Correcting the value of two_theta arm ...'']))
            \<and> getitem g1 [nm, nm] = Inr (Dataset (PArr [0]) a1)
            \<and> map_of a1 = map_of a
            \<and> attrs_of g1 = attrs_of g
            \<and> (\<exists>t t1. getitem g [nm] = Inr t \<and> getitem g1 [nm] = Inr t1
                  \<and> attrs_of t1 = attrs_of t)
            \<and> (\<forall>k q. k \<noteq> nm \<longrightarrow> getitem g1 (k # q) = getitem g (k # q))
            \<and> (\<forall>k q. k \<noteq> nm \<longrightarrow> getitem g1 (nm # k # q) = getitem g (nm # k # q))"
    by (simp add: getitem_def update_conv' map_of_copy_attrs_all)
next
  assume h: "nm = two_theta_name g
          \<and> check_detector_transformations (g, l) = (Inr (), (g', l'))"
  then have nm: "nm = (if getitem g [''two_theta''] = Inl KeyError then ''twotheta'' else ''two_theta'')"
    by (simp add: two_theta_name_def)
  from h check_detector_transformations_post [OF _ nm, of l g' l'] assms
  show "\<exists>a'. getitem g' [nm, nm] = Inr (Dataset (PArr [0]) a')
           \<and> map_of a' = (map_of a)(''depends_on'' \<mapsto> PBytes ''.'')"
    by auto
qed

theorem two_theta_correction_keeps_attributes_witness:
  "(\<exists>a. getitem detector_arm_at_5 [''two_theta'', ''two_theta''] = Inr (Dataset (PNum 5) a)
       \<and> map_of a ''units'' = Some (PBytes ''deg''))
   \<and> ne_zero (PNum 5) = Inr True
   \<and> (\<exists>g1 a1. fix_two_theta_value ''two_theta'' [''two_theta''] (detector_arm_at_5, []) =
              (Inr (), (g1, [Msg ''Correcting the value of two_theta arm ...'']))
            \<and> getitem g1 [''two_theta'', ''two_theta''] = Inr (Dataset (PArr [0]) a1)
            \<and> map_of a1 ''units'' = Some (PBytes ''deg'')
            \<and> map_of a1 ''depends_on'' =
                 Some (PBytes ''/entry/instrument/detector/transformations/detector_z/det_z''))"
proof -
  let ?a = "[(''units'', PBytes ''deg''),
             (''depends_on'', PBytes ''/entry/instrument/detector/transformations/detector_z/det_z''),
             (''transformation_type'', PBytes ''rotation''),
             (''vector'', PArr [0, -1, 0])]"
  have 1: "getitem detector_arm_at_5 [''two_theta'', ''two_theta''] = Inr (Dataset (PNum 5) ?a)"
    by (simp add: detector_arm_at_5_def getitem_def)
  have 2: "ne_zero (PNum 5) = Inr True"
    by (simp add: ne_zero_def)
  from two_theta_correction_keeps_attributes [OF 1 2, of "[]" undefined undefined]
  obtain g1 a1 where r: "fix_two_theta_value ''two_theta'' [''two_theta''] (detector_arm_at_5, []) =
              (Inr (), (g1, [Msg ''Correcting the value of two_theta arm ...'']))"
    "getitem g1 [''two_theta'', ''two_theta''] = Inr (Dataset (PArr [0]) a1)"
    "map_of a1 = map_of ?a"
    by auto
  from r(3) have "map_of a1 ''units'' = Some (PBytes ''deg'')"
    "map_of a1 ''depends_on'' =
       Some (PBytes ''/entry/instrument/detector/transformations/detector_z/det_z'')"
    by simp_all
  with r(1,2) 1 2 show ?thesis by auto
qed

text \<open>
  Claim C1. On a group whose \<open>det_z\<close> depends on
  \<open>b"/entry/instrument/detector/transformations/two_theta"\<close>, the function returns,
  logs that it fixes the typo, and \<open>det_z\<close> depends on the same string afterwards, not
  on \<open>b"/entry/instrument/detector/transformations/two_theta/two_theta"\<close>: line 67
  compares and assigns nothing.
\<close>

theorem det_z_depends_on_compared_not_assigned:
  "\<exists>g' l' z z'.
     check_detector_transformations (detector_arm_at_5, []) = (Inr (), (g', l'))
     \<and> Msg ''Fixing typo in det_z dependency ...'' \<in> set l'
     \<and> getitem detector_arm_at_5 [''detector_z'', ''det_z''] = Inr z
     \<and> read_attr z ''depends_on'' =
          Inr (PBytes ''/entry/instrument/detector/transformations/two_theta'')
     \<and> getitem g' [''detector_z'', ''det_z''] = Inr z'
     \<and> read_attr z' ''depends_on'' =
          Inr (PBytes ''/entry/instrument/detector/transformations/two_theta'')
     \<and> read_attr z' ''depends_on'' \<noteq>
          Inr (PBytes ''/entry/instrument/detector/transformations/two_theta/two_theta'')"
  unfolding detector_arm_at_5_run
  by (simp add: detector_arm_at_5_def detector_arm_checked_def h5_defs)

subsection \<open>The scan range of a new file\<close>

text \<open>
  Claim C10. Let the scan axis be found in the goniometer's lists, with its start, end
  and increment. Then \<open>write_NXmx_nexus\<close> takes the number of images from the data
  files (\<open>f["data"].shape[0]\<close> of the only file, \<open>find_number_of_images\<close> otherwise),
  and writes the tree with the scan range \<open>calculate_scan_range\<close> gives for start, end
  and the increment when the increment is not zero, and for start, end and that number
  of images when it is zero; an exception of either computation leaves the file as it
  was.
\<close>

theorem write_NXmx_nexus_scan_range:
  assumes "find_scan_axis T (axes gon) (starts gon) (ends gon) = Inr osc_axis"
    and "index_of (axes gon) osc_axis = Inr idx"
    and "nth_py (starts gon) idx = Inr s"
    and "nth_py (ends gon) idx = Inr e"
    and "nth_py (increments gon) idx = Inr inc"
  shows "write_NXmx_nexus T W datafiles gon detector module_scope source beam attenuator
           timestamps coordinate_frame vds st =
     (case (if length datafiles = 1 then data_shape0 T (hd datafiles)
            else find_number_of_images T datafiles) of
        Inl err \<Rightarrow> (Inl err, st)
      | Inr num_images \<Rightarrow>
          (case calculate_scan_range T s e
                  (if inc \<noteq> 0 then AxisIncrement inc else NImages num_images) of
             Inl err \<Rightarrow> (Inl err, st)
           | Inr scan_range \<Rightarrow>
               write_tree W datafiles coordinate_frame osc_axis scan_range
                 (''images'', num_images) gon detector module_scope source beam attenuator
                 vds timestamps st))"
  using assms
  by (simp add: write_NXmx_nexus_def image_count_def scan_range_of_def sbind_def bnd_def
      eval_def split: sum.splits)

theorem write_NXmx_nexus_scan_range_witness:
  "write_NXmx_nexus tools_example writers_example [4, 6] (goniometer_example (1 / 10))
     () () () () () (None, None) ''mcstas'' None (Group [] [], []) =
   write_tree writers_example [4, 6] ''mcstas'' ''omega'' (0, 90, AxisIncrement (1 / 10))
     (''images'', 10) (goniometer_example (1 / 10)) () () () () () None (None, None)
     (Group [] [], [])
   \<and> write_NXmx_nexus tools_example writers_example [10] (goniometer_example 0)
     () () () () () (None, None) ''mcstas'' None (Group [] [], []) =
   write_tree writers_example [10] ''mcstas'' ''omega'' (0, 90, NImages 10)
     (''images'', 10) (goniometer_example 0) () () () () () None (None, None)
     (Group [] [], [])"
proof -
  have a: "find_scan_axis tools_example (axes (goniometer_example i))
      (starts (goniometer_example i)) (ends (goniometer_example i)) = Inr ''omega''" for i
    by (simp add: tools_example_def)
  have b: "index_of (axes (goniometer_example i)) ''omega'' = Inr 0" for i
    by (simp add: goniometer_example_def)
  have c: "nth_py (starts (goniometer_example i)) 0 = Inr 0"
    "nth_py (ends (goniometer_example i)) 0 = Inr 90"
    "nth_py (increments (goniometer_example i)) 0 = Inr i" for i
    by (simp_all add: goniometer_example_def nth_py_def)
  from write_NXmx_nexus_scan_range [OF a b c, of writers_example "[4, 6]" "1 / 10"
      "()" "()" "()" "()" "()" "(None, None)" "''mcstas''" None "(Group [] [], [])"]
    write_NXmx_nexus_scan_range [OF a b c, of writers_example "[10]" 0
      "()" "()" "()" "()" "()" "(None, None)" "''mcstas''" None "(Group [] [], [])"]
  show ?thesis
    by (simp add: tools_example_def)
qed

subsection \<open>Whole files\<close>

lemmas run_checks_defs = run_checks_def call_on_def check_definition_def
  check_sample_depends_on_def check_I19_dependency_tree_def fix_axis_depends_on_def

lemma write_example_run:
  "write_NXmx_nexus tools_example writers_example [10] (goniometer_example 0)
     () () () () () (None, None) ''mcstas'' None (Group [] [], []) =
   (Inr (), (written_file, []))"
  by (simp add: write_NXmx_nexus_def write_tree_def call_writers_def image_count_def
      scan_range_of_def sbind_def nth_py_def tools_example_def writers_example_def
      goniometer_example_def written_file_def create_group_def act_defs h5_defs)

lemma written_file_run:
  "run_checks ''scan.nxs'' (written_file, []) =
   (Inr (), (written_file_checked,
      [Msg ''Running checks on scan.nxs ...'',
       Msg ''Check application definition'',
       MsgVal ''Application definition: '' (PBytes ''NXmx''),
       Msg ''Fixing definition to NXmx'',
       Msg '''',
       Msg ''----------'',
       Msg ''Check that detector_z and two_theta fields are correctly set to I19-2 configuration for Tristan.'',
       Msg ''On I19-2 the Tristan detector does not sit on two_theta arm, which must be set to 0.'',
       Msg ''Additionally, the detector_z vector should be [0,0,-1]'',
       Msg ''Checking dependency tree of detector for typos ...'',
       Msg ''----------'',
       Msg ''Check sample depends on'',
       Msg ''----------'',
       Msg ''Check goniometer dependency tree'',
       Msg ''The dependency tree on I19-2 should follow this order:'',
       Msg ''x - y - z - phi - kappa - omega'',
       Msg ''EOF'']))"
  by (simp add: written_file_def written_file_checked_def canonical_sample_def
      canonical_detector_transformations_def run_checks_defs check_detector_defs
      act_defs h5_defs)

lemmas example_defs = detector_arm_at_5_def detector_arm_checked_def
  transformations_scrambled_def transformations_fixed_def canonical_sample_def
  canonical_detector_transformations_def detector_without_det_z_def

lemma tristan_file_run:
  "run_checks ''scan.nxs'' (tristan_file, []) =
   (Inr (), (tristan_file_checked,
      [Msg ''Running checks on scan.nxs ...'',
       Msg ''Check application definition'',
       MsgVal ''Application definition: '' (PBytes ''NXmx''),
       Msg ''Fixing definition to NXmx'',
       Msg '''',
       Msg ''----------'',
       Msg ''Check that detector_z and two_theta fields are correctly set to I19-2 configuration for Tristan.'',
       Msg ''On I19-2 the Tristan detector does not sit on two_theta arm, which must be set to 0.'',
       Msg ''Correcting the value of two_theta arm ...'',
       Msg ''Additionally, the detector_z vector should be [0,0,-1]'',
       Msg ''Overwriting det_z vector ...'',
       Msg ''Checking dependency tree of detector for typos ...'',
       Msg ''Setting two_theta as base ...'',
       Msg ''Fixing typo in det_z dependency ...'',
       Msg ''----------'',
       Msg ''Check sample depends on'',
       Msg ''Sample depends_on field did not exist, creating now ...'',
       Msg ''----------'',
       Msg ''Check goniometer dependency tree'',
       Msg ''The dependency tree on I19-2 should follow this order:'',
       Msg ''x - y - z - phi - kappa - omega'',
       Msg ''EOF'']))"
  by (simp add: tristan_file_def tristan_file_checked_def example_defs
      run_checks_defs check_detector_defs act_defs h5_defs)

lemma tristan_file_checked_run:
  "run_checks ''scan.nxs'' (tristan_file_checked, []) =
   (Inr (), (tristan_file_checked,
      [Msg ''Running checks on scan.nxs ...'',
       Msg ''Check application definition'',
       MsgVal ''Application definition: '' (PBytes ''NXmx''),
       Msg ''Fixing definition to NXmx'',
       Msg '''',
       Msg ''----------'',
       Msg ''Check that detector_z and two_theta fields are correctly set to I19-2 configuration for Tristan.'',
       Msg ''On I19-2 the Tristan detector does not sit on two_theta arm, which must be set to 0.'',
       Msg ''Additionally, the detector_z vector should be [0,0,-1]'',
       Msg ''Checking dependency tree of detector for typos ...'',
       Msg ''Fixing typo in det_z dependency ...'',
       Msg ''----------'',
       Msg ''Check sample depends on'',
       Msg ''----------'',
       Msg ''Check goniometer dependency tree'',
       Msg ''The dependency tree on I19-2 should follow this order:'',
       Msg ''x - y - z - phi - kappa - omega'',
       Msg ''EOF'']))"
  by (simp add: tristan_file_checked_def example_defs
      run_checks_defs check_detector_defs act_defs h5_defs)

lemma two_locations_file_run:
  "run_checks ''scan.nxs'' (two_locations_file, []) =
   (Inr (), (two_locations_checked,
      [Msg ''Running checks on scan.nxs ...'',
       Msg ''Check application definition'',
       MsgVal ''Application definition: '' (PBytes ''NXmx''),
       Msg ''Fixing definition to NXmx'',
       Msg '''',
       Msg ''----------'',
       Msg ''Check that detector_z and two_theta fields are correctly set to I19-2 configuration for Tristan.'',
       Msg ''On I19-2 the Tristan detector does not sit on two_theta arm, which must be set to 0.'',
       Msg ''Correcting the value of two_theta arm ...'',
       Msg ''Additionally, the detector_z vector should be [0,0,-1]'',
       Msg ''On I19-2 the Tristan detector does not sit on two_theta arm, which must be set to 0.'',
       Msg ''Correcting the value of two_theta arm ...'',
       Msg ''Additionally, the detector_z vector should be [0,0,-1]'',
       Msg ''Overwriting det_z vector ...'',
       Msg ''Checking dependency tree of detector for typos ...'',
       Msg ''Setting two_theta as base ...'',
       Msg ''Fixing typo in det_z dependency ...'',
       Msg ''----------'',
       Msg ''Check sample depends on'',
       Msg ''----------'',
       Msg ''Check goniometer dependency tree'',
       Msg ''The dependency tree on I19-2 should follow this order:'',
       Msg ''x - y - z - phi - kappa - omega'',
       Msg ''EOF'']))"
  by (simp add: two_locations_file_def two_locations_checked_def example_defs
      run_checks_defs check_detector_defs act_defs h5_defs)

text \<open>
  Claim C2. The writer stores the definition as the byte string \<open>np.string_("NXmx")\<close>
  and \<open>check_definition\<close> compares what it reads with the \<open>str\<close> \<open>"NXmx"\<close>: on the
  file just written, whose chains are canonical, \<open>run_checks\<close> takes the correction
  branch of \<open>check_definition\<close> and replaces the dataset.
\<close>

theorem fresh_file_definition_rewritten:
  "write_NXmx_nexus tools_example writers_example [10] (goniometer_example 0)
     () () () () () (None, None) ''mcstas'' None (Group [] [], []) =
     (Inr (), (written_file, []))
   \<and> getitem written_file [''entry'', ''definition''] = Inr (Dataset (PBytes ''NXmx'') [])
   \<and> (\<exists>f' l'. run_checks ''scan.nxs'' (written_file, []) = (Inr (), (f', l'))
         \<and> Msg ''Fixing definition to NXmx'' \<in> set l'
         \<and> getitem f' [''entry'', ''definition''] = Inr (Dataset (PBytes ''NXmx'') [])
         \<and> f' \<noteq> written_file)"
  unfolding write_example_run written_file_run
  by (simp add: written_file_def written_file_checked_def getitem_def)

text \<open>
  Claim C3. On \<open>tristan_file\<close> the first run returns; the second run, on the file the
  first one left, takes the branch for the typo in the dependency of \<open>det_z\<close> again,
  as the first did, and assigns nothing. (It also rewrites the definition again, as
  under claim C2 and C8. The file is the same after the second run.)
\<close>

theorem second_run_fixes_typo_again:
  "\<exists>f1 l1 l2.
     run_checks ''scan.nxs'' (tristan_file, []) = (Inr (), (f1, l1))
     \<and> Msg ''Fixing typo in det_z dependency ...'' \<in> set l1
     \<and> run_checks ''scan.nxs'' (f1, []) = (Inr (), (f1, l2))
     \<and> Msg ''Fixing typo in det_z dependency ...'' \<in> set l2"
  unfolding tristan_file_run
  by (simp add: tristan_file_checked_run)

text \<open>
  Claim C9. In \<open>two_locations_file\<close> the group \<open>entry/instrument/detector/transformations\<close>
  is present, and has no \<open>detector_z\<close>. The check on it corrects two-theta and then
  raises \<open>KeyError\<close>, which the \<open>except\<close> clause of \<open>run_checks\<close> takes for a missing
  group: the group \<open>entry/instrument/transformations\<close> is checked and changed too.
\<close>

theorem legacy_group_checked_though_primary_present:
  "getitem two_locations_file [''entry'', ''instrument'', ''detector'', ''transformations''] =
     Inr detector_without_det_z
   \<and> getitem two_locations_file [''entry'', ''instrument'', ''transformations''] =
     Inr detector_arm_at_5
   \<and> (\<exists>f' l'. run_checks ''scan.nxs'' (two_locations_file, []) = (Inr (), (f', l'))
         \<and> getitem f' [''entry'', ''instrument'', ''transformations''] =
              Inr detector_arm_checked
         \<and> getitem f' [''entry'', ''instrument'', ''detector'', ''transformations'',
                        ''two_theta'', ''two_theta''] =
              Inr (Dataset (PArr [0]) [(''depends_on'', PBytes ''.'')]))
   \<and> detector_arm_checked \<noteq> detector_arm_at_5"
  unfolding two_locations_file_run
  by (simp add: two_locations_file_def two_locations_checked_def getitem_def
      detector_arm_checked_def detector_arm_at_5_def)

end
